theory Spec2Isabelle
  imports Complex_Main
begin

section \<open>The platform game: data model\<close>

text \<open>
  The embedding follows \<^verbatim>\<open>platformgame.js\<close>. JavaScript numbers that hold
  positions, sizes and velocities are modelled as exact rationals (\<^typ>\<open>rat\<close>; the
  constant \<^verbatim>\<open>0.6\<close> is \<open>3/5\<close>); counters that only ever hold whole numbers
  (health, timers, score) are \<^typ>\<open>int\<close>. Every method that assigns to
  \<^verbatim>\<open>this\<close> returns the updated object; a method that also changes other
  objects returns them as well. A \<^verbatim>\<open>forEach\<close> is a recursion over the list
  in the list's order. The class \<^verbatim>\<open>Entity\<close> is abstract (its constructor and
  its \<^verbatim>\<open>update\<close> and \<^verbatim>\<open>render\<close> throw): it appears as the record
  that the four concrete classes extend, and the \<^verbatim>\<open>render\<close> methods, which
  assign to no field, are left out.

  The fields \<^verbatim>\<open>x\<close> and \<^verbatim>\<open>y\<close> of the source are called \<open>xpos\<close>
  and \<open>ypos\<close>; the fields \<^verbatim>\<open>type\<close> and \<^verbatim>\<open>value\<close> of a collectible
  are \<open>ctype\<close> and \<open>cvalue\<close>. Fields of the same name in two classes carry the
  class initial as a suffix in the second class (\<open>velocityX_E\<close> of an enemy,
  \<open>direction_P\<close> of a platform).
\<close>

subsection \<open>Entity\<close>

record entity =
  xpos :: rat
  ypos :: rat
  width :: rat
  height :: rat
  color :: string
  active :: bool

definition collidesWith :: "'a entity_scheme \<Rightarrow> 'b entity_scheme \<Rightarrow> bool" where
  "collidesWith this other \<longleftrightarrow>
     active this \<and>
     active other \<and>
     xpos this < xpos other + width other \<and>
     xpos this + width this > xpos other \<and>
     ypos this < ypos other + height other \<and>
     ypos this + height this > ypos other"

definition getCenterX :: "'a entity_scheme \<Rightarrow> rat" where
  "getCenterX this = xpos this + width this / 2"

definition getCenterY :: "'a entity_scheme \<Rightarrow> rat" where
  "getCenterY this = ypos this + height this / 2"

subsection \<open>Platform\<close>

record platform = entity +
  moving :: bool
  moveRange :: rat
  moveSpeed :: rat
  startX :: rat
  direction_P :: rat

text \<open>The constructor; \<open>Platform\<close> is its five-argument form, where the source's
  default parameters \<^verbatim>\<open>moving = false, moveRange = 0, moveSpeed = 0\<close> apply.\<close>

definition Platform_moving :: "rat \<Rightarrow> rat \<Rightarrow> rat \<Rightarrow> rat \<Rightarrow> bool \<Rightarrow> rat \<Rightarrow> rat \<Rightarrow> platform" where
  "Platform_moving x0 y0 w h mv rng spd =
     \<lparr>xpos = x0, ypos = y0, width = w, height = h, color = ''#795548'', active = True,
      moving = mv, moveRange = rng, moveSpeed = spd, startX = x0, direction_P = 1\<rparr>"

definition Platform :: "rat \<Rightarrow> rat \<Rightarrow> rat \<Rightarrow> rat \<Rightarrow> platform" where
  "Platform x0 y0 w h = Platform_moving x0 y0 w h False 0 0"

definition Platform_update :: "platform \<Rightarrow> platform" where
  "Platform_update this =
     (if moving this then
        (let this = this\<lparr>xpos := xpos this + moveSpeed this * direction_P this\<rparr> in
         if xpos this \<ge> startX this + moveRange this then
           this\<lparr>xpos := startX this + moveRange this, direction_P := - 1\<rparr>
         else if xpos this \<le> startX this then
           this\<lparr>xpos := startX this, direction_P := 1\<rparr>
         else this)
      else this)"

subsection \<open>Enemy\<close>

text \<open>The field \<open>scoreGiven\<close> is never initialised by the constructor: the game
  reads it as \<^verbatim>\<open>undefined\<close>, which is falsy, until it assigns \<^verbatim>\<open>true\<close>.
  The model starts it at \<open>False\<close>.\<close>

record enemy = entity +
  velocityX_E :: rat
  velocityY_E :: rat
  gravity_E :: rat
  patrolStart :: rat
  patrolEnd :: rat
  direction_E :: rat
  defeated :: bool
  defeatTimer :: int
  scoreGiven :: bool

definition Enemy :: "rat \<Rightarrow> rat \<Rightarrow> rat \<Rightarrow> rat \<Rightarrow> enemy" where
  "Enemy x0 y0 pStart pEnd =
     \<lparr>xpos = x0, ypos = y0, width = 35, height = 35, color = ''#F44336'', active = True,
      velocityX_E = 2, velocityY_E = 0, gravity_E = 3 / 5,
      patrolStart = pStart, patrolEnd = pEnd, direction_E = 1,
      defeated = False, defeatTimer = 0, scoreGiven = False\<rparr>"

definition Enemy_platform_step :: "enemy \<Rightarrow> platform \<Rightarrow> enemy" where
  "Enemy_platform_step this pl =
     (if collidesWith this pl then
        (if velocityY_E this > 0 \<and>
            ypos this + height this - velocityY_E this \<le> ypos pl + 5 then
           this\<lparr>ypos := ypos pl - height this, velocityY_E := 0\<rparr>
         else this)
      else this)"

fun Enemy_checkPlatformCollisions :: "enemy \<Rightarrow> platform list \<Rightarrow> enemy" where
  "Enemy_checkPlatformCollisions this [] = this"
| "Enemy_checkPlatformCollisions this (pl # pls) =
     Enemy_checkPlatformCollisions (Enemy_platform_step this pl) pls"

definition Enemy_update :: "enemy \<Rightarrow> platform list \<Rightarrow> enemy" where
  "Enemy_update this platforms =
     (if defeated this then
        (let this = this\<lparr>defeatTimer := defeatTimer this + 1\<rparr> in
         if defeatTimer this > 30 then this\<lparr>active := False\<rparr> else this)
      else
        (let this = this\<lparr>velocityY_E := velocityY_E this + gravity_E this\<rparr>;
             this = this\<lparr>xpos := xpos this + velocityX_E this * direction_E this\<rparr>;
             this = this\<lparr>ypos := ypos this + velocityY_E this\<rparr>;
             this = Enemy_checkPlatformCollisions this platforms in
         if xpos this \<le> patrolStart this then
           this\<lparr>xpos := patrolStart this, direction_E := 1\<rparr>
         else if xpos this + width this \<ge> patrolEnd this then
           this\<lparr>xpos := patrolEnd this - width this, direction_E := - 1\<rparr>
         else this))"

definition defeat :: "enemy \<Rightarrow> enemy" where
  "defeat this = this\<lparr>defeated := True, color := ''#FFCDD2''\<rparr>"

subsection \<open>Collectible\<close>

text \<open>The four type tags the constructor knows. The animation field
  \<^verbatim>\<open>bobOffset\<close> (a sine of the rotation, read only when drawing) is left out.\<close>

datatype collectible_type = Coin | Star | Heart | DoubleJump

record collectible = entity +
  ctype :: collectible_type
  collected :: bool
  rotation :: rat
  bobSpeed :: rat
  cvalue :: int

definition Collectible :: "rat \<Rightarrow> rat \<Rightarrow> collectible_type \<Rightarrow> collectible" where
  "Collectible x0 y0 t =
     \<lparr>xpos = x0, ypos = y0, width = 25, height = 25,
      color = (case t of Coin \<Rightarrow> ''#FFD700'' | Star \<Rightarrow> ''#FF6B6B''
                       | Heart \<Rightarrow> ''#E91E63'' | DoubleJump \<Rightarrow> ''#2196F3''),
      active = True,
      ctype = t, collected = False, rotation = 0, bobSpeed = 1 / 10,
      cvalue = (case t of Coin \<Rightarrow> 10 | Star \<Rightarrow> 50 | Heart \<Rightarrow> 0 | DoubleJump \<Rightarrow> 100)\<rparr>"

definition Collectible_update :: "collectible \<Rightarrow> collectible" where
  "Collectible_update this =
     (if \<not> collected this then this\<lparr>rotation := rotation this + 1 / 10\<rparr> else this)"

text \<open>\<open>collect\<close> returns the changed collectible together with the pair
  \<^verbatim>\<open>{type, value}\<close> of the source.\<close>

definition collect :: "collectible \<Rightarrow> collectible \<times> (collectible_type \<times> int)" where
  "collect this =
     (this\<lparr>collected := True, active := False\<rparr>, (ctype this, cvalue this))"

subsection \<open>Player\<close>

record player = entity +
  velocityX :: rat
  velocityY :: rat
  speed :: rat
  jumpPower :: rat
  gravity :: rat
  isOnGround :: bool
  health :: int
  maxHealth :: int
  invincible :: bool
  invincibleTimer :: int
  doubleJumpAvailable :: bool
  hasDoubleJump :: bool

definition Player :: "rat \<Rightarrow> rat \<Rightarrow> player" where
  "Player x0 y0 =
     \<lparr>xpos = x0, ypos = y0, width = 40, height = 40, color = ''#4CAF50'', active = True,
      velocityX = 0, velocityY = 0, speed = 6, jumpPower = 15, gravity = 3 / 5,
      isOnGround = False, health = 5, maxHealth = 5,
      invincible = False, invincibleTimer = 0,
      doubleJumpAvailable = False, hasDoubleJump = False\<rparr>"

definition Player_platform_step :: "player \<Rightarrow> platform \<Rightarrow> player" where
  "Player_platform_step this pl =
     (if collidesWith this pl then
        (if velocityY this > 0 \<and>
            ypos this + height this - velocityY this \<le> ypos pl + 5 then
           this\<lparr>ypos := ypos pl - height this, velocityY := 0, isOnGround := True\<rparr>
         else if velocityY this < 0 \<and>
            ypos this - velocityY this \<ge> ypos pl + height pl then
           this\<lparr>ypos := ypos pl + height pl, velocityY := 0\<rparr>
         else if velocityX this > 0 then
           this\<lparr>xpos := xpos pl - width this, velocityX := 0\<rparr>
         else if velocityX this < 0 then
           this\<lparr>xpos := xpos pl + width pl, velocityX := 0\<rparr>
         else this)
      else this)"

fun Player_checkPlatformCollisions :: "player \<Rightarrow> platform list \<Rightarrow> player" where
  "Player_checkPlatformCollisions this [] = this"
| "Player_checkPlatformCollisions this (pl # pls) =
     Player_checkPlatformCollisions (Player_platform_step this pl) pls"

definition takeDamage :: "player \<Rightarrow> player" where
  "takeDamage this =
     (if \<not> invincible this then
        (let this = this\<lparr>health := health this - 1, invincible := True,
                          invincibleTimer := 90\<rparr> in
         if health this \<le> 0 then this\<lparr>active := False\<rparr> else this)
      else this)"

definition heal :: "player \<Rightarrow> int \<Rightarrow> player" where
  "heal this amount = this\<lparr>health := min (maxHealth this) (health this + amount)\<rparr>"

text \<open>One round of the loop over the enemies: the player and the enemy after it.\<close>

definition Player_enemy_step :: "player \<Rightarrow> enemy \<Rightarrow> player \<times> enemy" where
  "Player_enemy_step this en =
     (if collidesWith this en then
        (if velocityY this > 0 \<and>
            ypos this + height this - velocityY this \<le> ypos en + 10 then
           (this\<lparr>velocityY := - 10\<rparr>, defeat en)
         else (takeDamage this, en))
      else (this, en))"

fun enemies_forEach :: "player \<Rightarrow> enemy list \<Rightarrow> player \<times> enemy list" where
  "enemies_forEach this [] = (this, [])"
| "enemies_forEach this (en # ens) =
     (let (this1, en1) = Player_enemy_step this en;
          (this2, ens2) = enemies_forEach this1 ens
      in (this2, en1 # ens2))"

definition checkEnemyCollisions :: "player \<Rightarrow> enemy list \<Rightarrow> player \<times> enemy list" where
  "checkEnemyCollisions this enemies =
     (if invincible this then (this, enemies) else enemies_forEach this enemies)"

definition constrainToBounds :: "player \<Rightarrow> player" where
  "constrainToBounds this =
     (let this = (if xpos this < 0 then this\<lparr>xpos := 0, velocityX := 0\<rparr> else this);
          this = (if xpos this + width this > 2400
                  then this\<lparr>xpos := 2400 - width this, velocityX := 0\<rparr> else this)
      in if ypos this > 600 then this\<lparr>health := 0, active := False\<rparr> else this)"

definition Player_update :: "player \<Rightarrow> platform list \<Rightarrow> enemy list \<Rightarrow> player \<times> enemy list" where
  "Player_update this platforms enemies =
     (let this = this\<lparr>velocityY := velocityY this + gravity this\<rparr>;
          this = this\<lparr>xpos := xpos this + velocityX this\<rparr>;
          this = this\<lparr>ypos := ypos this + velocityY this\<rparr>;
          wasOnGround = isOnGround this;
          this = this\<lparr>isOnGround := False\<rparr>;
          this = Player_checkPlatformCollisions this platforms;
          this = (if isOnGround this \<and> \<not> wasOnGround
                  then this\<lparr>doubleJumpAvailable := True\<rparr> else this);
          (this, enemies) = checkEnemyCollisions this enemies;
          this = constrainToBounds this;
          this = (if invincible this then
                    (let this = this\<lparr>invincibleTimer := invincibleTimer this - 1\<rparr> in
                     if invincibleTimer this \<le> 0 then this\<lparr>invincible := False\<rparr> else this)
                  else this)
      in (this, enemies))"

definition moveLeft :: "player \<Rightarrow> player" where
  "moveLeft this = this\<lparr>velocityX := - speed this\<rparr>"

definition moveRight :: "player \<Rightarrow> player" where
  "moveRight this = this\<lparr>velocityX := speed this\<rparr>"

definition Player_stop :: "player \<Rightarrow> player" where
  "Player_stop this = this\<lparr>velocityX := 0\<rparr>"

definition jump :: "player \<Rightarrow> player" where
  "jump this =
     (if isOnGround this then
        this\<lparr>velocityY := - jumpPower this, isOnGround := False\<rparr>
      else if hasDoubleJump this \<and> doubleJumpAvailable this then
        this\<lparr>velocityY := - jumpPower this, doubleJumpAvailable := False\<rparr>
      else this)"

subsection \<open>Game\<close>

text \<open>The canvas is an object of the page; the game reads only its two dimensions,
  which the constructor sets. The drawing context and the \<^verbatim>\<open>render\<close> methods
  assign to no field of the game or of an entity and are left out. \<open>keys\<close> is the
  object \<^verbatim>\<open>this.keys\<close>: a key that was never written reads as
  \<^verbatim>\<open>undefined\<close>, which is falsy.\<close>

record game =
  canvas_width :: rat
  canvas_height :: rat
  cameraX :: rat
  levelWidth :: rat
  player :: player
  platforms :: "platform list"
  enemies :: "enemy list"
  collectibles :: "collectible list"
  score :: int
  highScore :: int
  level :: int
  keys :: "string \<Rightarrow> bool"
  isRunning :: bool
  gameOver :: bool
  gameWon :: bool

definition createPlatforms :: "platform list" where
  "createPlatforms =
     [Platform 0 550 400 50,
      Platform 500 550 400 50,
      Platform 1000 550 400 50,
      Platform 1500 550 400 50,
      Platform 2000 550 400 50,
      Platform 150 450 200 20,
      Platform 450 400 150 20,
      Platform 700 450 180 20,
      Platform 1000 420 200 20,
      Platform 1300 450 150 20,
      Platform 1600 400 200 20,
      Platform 1900 450 180 20,
      Platform 2150 420 200 20,
      Platform 100 300 150 20,
      Platform 350 280 120 20,
      Platform 600 300 160 20,
      Platform 900 250 180 20,
      Platform 1200 300 150 20,
      Platform 1500 280 140 20,
      Platform 1800 300 160 20,
      Platform 2100 250 150 20,
      Platform 200 150 120 20,
      Platform 500 180 140 20,
      Platform 800 150 120 20,
      Platform 1100 130 150 20,
      Platform 1400 150 130 20,
      Platform 1700 180 140 20,
      Platform 2000 150 120 20,
      Platform_moving 400 350 100 15 True 100 2,
      Platform_moving 1000 200 100 15 True 150 2,
      Platform_moving 1600 250 100 15 True 120 2,
      Platform 2200 100 200 30]"

definition createEnemies :: "enemy list" where
  "createEnemies =
     [Enemy 200 510 0 380,
      Enemy 550 510 500 880,
      Enemy 1050 510 1000 1380,
      Enemy 1550 510 1500 1880,
      Enemy 2050 510 2000 2380,
      Enemy 160 410 150 330,
      Enemy 460 360 450 580,
      Enemy 1010 380 1000 1180,
      Enemy 1610 360 1600 1780,
      Enemy 110 260 100 230,
      Enemy 910 210 900 1060,
      Enemy 1510 240 1500 1620]"

definition createCollectibles :: "collectible list" where
  "createCollectibles =
     map (\<lambda>i. Collectible (200 + of_nat i * 70) (500 - of_nat (i mod 3) * 150) Coin) [0..<30]
     @ [Collectible 230 110 Star,
        Collectible 680 260 Star,
        Collectible 1130 90 Star,
        Collectible 1730 140 Star,
        Collectible 2030 110 Star,
        Collectible 400 360 Heart,
        Collectible 1000 210 Heart,
        Collectible 1800 310 Heart,
        Collectible 800 110 DoubleJump,
        Collectible 2280 50 Star]"

definition initLevel :: "game \<Rightarrow> game" where
  "initLevel this =
     this\<lparr>player := Player 100 100,
          platforms := createPlatforms,
          enemies := createEnemies,
          collectibles := createCollectibles,
          gameOver := False,
          gameWon := False,
          cameraX := 0\<rparr>"

text \<open>The constructor, up to the registration of the key listeners.\<close>

definition Game :: game where
  "Game =
     initLevel
       \<lparr>canvas_width = 800, canvas_height = 600, cameraX = 0, levelWidth = 2400,
        player = Player 0 0, platforms = [], enemies = [], collectibles = [],
        score = 0, highScore = 0, level = 1, keys = (\<lambda>k. False),
        isRunning = False, gameOver = False, gameWon = False\<rparr>"

definition handleInput :: "game \<Rightarrow> game" where
  "handleInput this =
     (if gameOver this \<or> gameWon this then this
      else if keys this ''ArrowLeft'' then this\<lparr>player := moveLeft (player this)\<rparr>
      else if keys this ''ArrowRight'' then this\<lparr>player := moveRight (player this)\<rparr>
      else this\<lparr>player := Player_stop (player this)\<rparr>)"

definition updateCamera :: "game \<Rightarrow> game" where
  "updateCamera this =
     (let targetX = xpos (player this) - canvas_width this / 3 in
      this\<lparr>cameraX := max 0 (min targetX (levelWidth this - canvas_width this))\<rparr>)"

text \<open>One round of the loop over the collectibles: the player, the score and the
  collectible after it.\<close>

definition collectible_step :: "player \<Rightarrow> int \<Rightarrow> collectible \<Rightarrow> player \<times> int \<times> collectible" where
  "collectible_step pl sc c =
     (let c = Collectible_update c in
      if \<not> collected c \<and> collidesWith pl c then
        (let (c, (rtype, rvalue)) = collect c in
         if rtype = Heart then (heal pl 1, sc, c)
         else if rtype = DoubleJump then (pl\<lparr>hasDoubleJump := True\<rparr>, sc + rvalue, c)
         else (pl, sc + rvalue, c))
      else (pl, sc, c))"

fun collectibles_forEach :: "player \<Rightarrow> int \<Rightarrow> collectible list \<Rightarrow> player \<times> int \<times> collectible list" where
  "collectibles_forEach pl sc [] = (pl, sc, [])"
| "collectibles_forEach pl sc (c # cs) =
     (let (pl1, sc1, c1) = collectible_step pl sc c;
          (pl2, sc2, cs2) = collectibles_forEach pl1 sc1 cs
      in (pl2, sc2, c1 # cs2))"

text \<open>One round of the loop that awards the defeat bonus.\<close>

definition award_step :: "int \<Rightarrow> enemy \<Rightarrow> int \<times> enemy" where
  "award_step sc en =
     (if defeated en \<and> \<not> scoreGiven en then (sc + 50, en\<lparr>scoreGiven := True\<rparr>)
      else (sc, en))"

fun award_forEach :: "int \<Rightarrow> enemy list \<Rightarrow> int \<times> enemy list" where
  "award_forEach sc [] = (sc, [])"
| "award_forEach sc (en # ens) =
     (let (sc1, en1) = award_step sc en;
          (sc2, ens2) = award_forEach sc1 ens
      in (sc2, en1 # ens2))"

text \<open>\<open>Game_update\<close> is a sequence of statements on the game, each under a comment
  of its own in the source. Each is a function here, named after its comment, and
  \<open>Game_update\<close> applies them in the order of the source.\<close>

definition updatePlayer :: "game \<Rightarrow> game" where
  "updatePlayer this =
     (let (pl, ens) = Player_update (player this) (platforms this) (enemies this)
      in this\<lparr>player := pl, enemies := ens\<rparr>)"

definition updatePlatforms :: "game \<Rightarrow> game" where
  "updatePlatforms this = this\<lparr>platforms := map Platform_update (platforms this)\<rparr>"

definition updateEnemies :: "game \<Rightarrow> game" where
  "updateEnemies this =
     this\<lparr>enemies := map (\<lambda>en. Enemy_update en (platforms this)) (enemies this)\<rparr>"

definition updateCollectibles :: "game \<Rightarrow> game" where
  "updateCollectibles this =
     (let (pl, sc, cs) = collectibles_forEach (player this) (score this) (collectibles this)
      in this\<lparr>player := pl, score := sc, collectibles := cs\<rparr>)"

definition awardDefeats :: "game \<Rightarrow> game" where
  "awardDefeats this =
     (let (sc, ens) = award_forEach (score this) (enemies this)
      in this\<lparr>score := sc, enemies := ens\<rparr>)"

definition checkGameOver :: "game \<Rightarrow> game" where
  "checkGameOver this =
     (if \<not> active (player this) then
        (let this = this\<lparr>gameOver := True\<rparr> in
         if score this > highScore this then this\<lparr>highScore := score this\<rparr> else this)
      else this)"

definition checkWin :: "game \<Rightarrow> game" where
  "checkWin this =
     (if xpos (player this) > 2250 then
        (let this = this\<lparr>gameWon := True\<rparr> in
         if score this > highScore this then this\<lparr>highScore := score this\<rparr> else this)
      else this)"

definition Game_update :: "game \<Rightarrow> game" where
  "Game_update this =
     (if gameOver this \<or> gameWon this then this
      else
        (let this = handleInput this;
             this = updatePlayer this;
             this = updatePlatforms this;
             this = updateEnemies this;
             this = updateCollectibles this;
             this = awardDefeats this;
             this = updateCamera this;
             this = checkGameOver this
         in checkWin this))"

text \<open>\<open>gameLoop\<close> is one run of the animation-frame callback: the update, then the
  drawing (which changes nothing here), then the request for the next callback, which
  is the next \<open>AnimationFrame\<close> event.\<close>

definition gameLoop :: "game \<Rightarrow> game" where
  "gameLoop this = (if \<not> isRunning this then this else Game_update this)"

definition start :: "game \<Rightarrow> game" where
  "start this = (if isRunning this then this else gameLoop (this\<lparr>isRunning := True\<rparr>))"

definition Game_stop :: "game \<Rightarrow> game" where
  "Game_stop this = this\<lparr>isRunning := False\<rparr>"

definition reset :: "game \<Rightarrow> game" where
  "reset this =
     (let this = Game_stop this;
          this = this\<lparr>score := 0\<rparr>;
          this = this\<lparr>level := 1\<rparr>;
          this = initLevel this
      in start this)"

definition handleKeyDown :: "game \<Rightarrow> string \<Rightarrow> game" where
  "handleKeyDown this k =
     (let this = this\<lparr>keys := (keys this)(k := True)\<rparr>;
          this = (if (k = '' '' \<or> k = ''ArrowUp'') \<and> \<not> gameOver this \<and> \<not> gameWon this
                  then this\<lparr>player := jump (player this)\<rparr> else this)
      in if k = ''r'' \<or> k = ''R'' then reset this else this)"

definition handleKeyUp :: "game \<Rightarrow> string \<Rightarrow> game" where
  "handleKeyUp this k = this\<lparr>keys := (keys this)(k := False)\<rparr>"

text \<open>What can happen to a game: an animation frame, a key event, or one of the three
  buttons of the page, which call \<^verbatim>\<open>start\<close>, \<^verbatim>\<open>stop\<close> and
  \<^verbatim>\<open>reset\<close>.\<close>

datatype event = AnimationFrame | KeyDown string | KeyUp string
  | StartButton | PauseButton | ResetButton

fun game_step :: "game \<Rightarrow> event \<Rightarrow> game" where
  "game_step g AnimationFrame = gameLoop g"
| "game_step g (KeyDown k) = handleKeyDown g k"
| "game_step g (KeyUp k) = handleKeyUp g k"
| "game_step g StartButton = start g"
| "game_step g PauseButton = Game_stop g"
| "game_step g ResetButton = reset g"

definition game_run :: "game \<Rightarrow> event list \<Rightarrow> game" where
  "game_run g evs = foldl game_step g evs"

subsection \<open>Sequences of operations on a player\<close>

text \<open>The methods of a player that the game calls, as operations, with the one field
  the game writes from outside (\<^verbatim>\<open>hasDoubleJump = true\<close>).\<close>

datatype player_op = Op_update "platform list" "enemy list" | Op_jump
  | Op_moveLeft | Op_moveRight | Op_stop | Op_takeDamage | Op_heal int | Op_unlockDoubleJump

fun apply_op :: "player \<Rightarrow> player_op \<Rightarrow> player" where
  "apply_op p (Op_update pls ens) = fst (Player_update p pls ens)"
| "apply_op p Op_jump = jump p"
| "apply_op p Op_moveLeft = moveLeft p"
| "apply_op p Op_moveRight = moveRight p"
| "apply_op p Op_stop = Player_stop p"
| "apply_op p Op_takeDamage = takeDamage p"
| "apply_op p (Op_heal amount) = heal p amount"
| "apply_op p Op_unlockDoubleJump = p\<lparr>hasDoubleJump := True\<rparr>"

text \<open>The number of jumps of a sequence that took the second branch of \<open>jump\<close>
  (a jump in the air that used the charge), and the sequences after each of whose
  operations the player is off the ground.\<close>

fun midair_jumps :: "player \<Rightarrow> player_op list \<Rightarrow> nat" where
  "midair_jumps p [] = 0"
| "midair_jumps p (opn # ops) =
     (if opn = Op_jump \<and> \<not> isOnGround p \<and> hasDoubleJump p \<and> doubleJumpAvailable p
      then 1 else 0)
     + midair_jumps (apply_op p opn) ops"

fun stays_airborne :: "player \<Rightarrow> player_op list \<Rightarrow> bool" where
  "stays_airborne p [] = True"
| "stays_airborne p (opn # ops) =
     (\<not> isOnGround (apply_op p opn) \<and> stays_airborne (apply_op p opn) ops)"

text \<open>The health invariant, and the sequences that damage or heal only a player who
  is active at that moment, by an amount that is not negative.\<close>

definition health_inv :: "player \<Rightarrow> bool" where
  "health_inv p \<longleftrightarrow>
     0 \<le> health p \<and> health p \<le> maxHealth p \<and> (health p = 0 \<longleftrightarrow> \<not> active p)"

fun ops_on_active :: "player \<Rightarrow> player_op list \<Rightarrow> bool" where
  "ops_on_active p [] = True"
| "ops_on_active p (opn # ops) =
     ((case opn of Op_takeDamage \<Rightarrow> active p
               | Op_heal amount \<Rightarrow> active p \<and> 0 \<le> amount
               | _ \<Rightarrow> True)
      \<and> ops_on_active (apply_op p opn) ops)"

subsection \<open>Score bookkeeping\<close>

text \<open>The points a collectible has contributed to the score: its value once it is
  collected, unless it is a heart, for which the game heals and adds nothing.\<close>

definition points :: "collectible \<Rightarrow> int" where
  "points c = (if collected c \<and> ctype c \<noteq> Heart then cvalue c else 0)"

definition collected_points :: "collectible list \<Rightarrow> int" where
  "collected_points cs = sum_list (map points cs)"

text \<open>The score is the points of the collected collectibles plus 50 for each defeated
  enemy, and an enemy carries \<open>scoreGiven\<close> exactly when it is defeated.\<close>

definition score_inv :: "game \<Rightarrow> bool" where
  "score_inv g \<longleftrightarrow>
     score g = collected_points (collectibles g)
               + 50 * int (length (filter defeated (enemies g)))
     \<and> map scoreGiven (enemies g) = map defeated (enemies g)"

text \<open>The events that call \<open>reset\<close>.\<close>

fun is_reset :: "event \<Rightarrow> bool" where
  "is_reset ResetButton = True"
| "is_reset (KeyDown k) = (k = ''r'' \<or> k = ''R'')"
| "is_reset _ = False"

text \<open>Position by position, an enemy that was defeated in the first list is defeated in
  the second.\<close>

definition stays_defeated :: "enemy list \<Rightarrow> enemy list \<Rightarrow> bool" where
  "stays_defeated ens ens' \<longleftrightarrow> list_all2 (\<lambda>e e'. defeated e \<longrightarrow> defeated e') ens ens'"

text \<open>The statements of \<open>Game_update\<close> up to the award of the defeat bonus: the ones
  that write the score or an enemy.\<close>

definition update_core :: "game \<Rightarrow> game" where
  "update_core g = awardDefeats (updateCollectibles (updateEnemies (updatePlatforms
     (updatePlayer (handleInput g)))))"

subsection \<open>Well-formed patrols\<close>

text \<open>A moving platform with a range that is not negative and a positive speed, a
  direction of 1 or \<open>- 1\<close> and a position inside its range; an enemy with a patrol
  interval at least as wide as itself, a positive speed, a direction of 1 or \<open>- 1\<close>
  and a position inside its interval. A level is well formed when all its platforms and
  enemies are.\<close>

definition platform_ok :: "platform \<Rightarrow> bool" where
  "platform_ok pl \<longleftrightarrow>
     (moving pl \<longrightarrow>
        0 \<le> moveRange pl \<and> 0 < moveSpeed pl
        \<and> (direction_P pl = 1 \<or> direction_P pl = - 1)
        \<and> startX pl \<le> xpos pl \<and> xpos pl \<le> startX pl + moveRange pl)"

definition enemy_ok :: "enemy \<Rightarrow> bool" where
  "enemy_ok en \<longleftrightarrow>
     patrolStart en + width en \<le> patrolEnd en \<and> 0 < velocityX_E en
     \<and> (direction_E en = 1 \<or> direction_E en = - 1)
     \<and> patrolStart en \<le> xpos en \<and> xpos en \<le> patrolEnd en - width en"

definition level_ok :: "game \<Rightarrow> bool" where
  "level_ok g \<longleftrightarrow> list_all platform_ok (platforms g) \<and> list_all enemy_ok (enemies g)"

subsection \<open>Two game states for the examples\<close>

text \<open>\<open>stomp_game\<close>: a falling player over one enemy, with a coin where the player is.
  \<open>goal_line_game\<close>: the level as built, with the right arrow key held, the player
  with one health point left walking right on the last ground section at \<open>x = 2248\<close>,
  and the fifth enemy (the one that patrols that section, between 2000 and 2380) walking
  left on the ground at \<open>x = 2290\<close>, two units clear of the player's right edge.\<close>

definition stomp_game :: game where
  "stomp_game =
     Game\<lparr>isRunning := True,
          player := (Player 100 100)\<lparr>velocityY := 3\<rparr>,
          platforms := [],
          enemies := [Enemy 100 135 0 380],
          collectibles := [Collectible 100 100 Coin]\<rparr>"

definition goal_line_game :: game where
  "goal_line_game =
     Game\<lparr>isRunning := True,
          player := (Player 2248 510)\<lparr>velocityX := 6, health := 1, isOnGround := True\<rparr>,
          enemies := createEnemies[4 := (Enemy 2290 515 2000 2380)\<lparr>direction_E := - 1\<rparr>],
          keys := (\<lambda>k. False)(''ArrowRight'' := True)\<rparr>"

section \<open>What each step leaves unchanged\<close>

lemma Player_platform_step_fields [simp]:
  "doubleJumpAvailable (Player_platform_step p pl) = doubleJumpAvailable p"
  "hasDoubleJump (Player_platform_step p pl) = hasDoubleJump p"
  "health (Player_platform_step p pl) = health p"
  "maxHealth (Player_platform_step p pl) = maxHealth p"
  "active (Player_platform_step p pl) = active p"
  "invincible (Player_platform_step p pl) = invincible p"
  "invincibleTimer (Player_platform_step p pl) = invincibleTimer p"
  "width (Player_platform_step p pl) = width p"
  "height (Player_platform_step p pl) = height p"
  by (simp_all add: Player_platform_step_def)

lemma Player_checkPlatformCollisions_fields [simp]:
  "doubleJumpAvailable (Player_checkPlatformCollisions p pls) = doubleJumpAvailable p"
  "hasDoubleJump (Player_checkPlatformCollisions p pls) = hasDoubleJump p"
  "health (Player_checkPlatformCollisions p pls) = health p"
  "maxHealth (Player_checkPlatformCollisions p pls) = maxHealth p"
  "active (Player_checkPlatformCollisions p pls) = active p"
  "invincible (Player_checkPlatformCollisions p pls) = invincible p"
  "invincibleTimer (Player_checkPlatformCollisions p pls) = invincibleTimer p"
  "width (Player_checkPlatformCollisions p pls) = width p"
  "height (Player_checkPlatformCollisions p pls) = height p"
  by (induction pls arbitrary: p; simp)+

lemma takeDamage_fields [simp]:
  "doubleJumpAvailable (takeDamage p) = doubleJumpAvailable p"
  "hasDoubleJump (takeDamage p) = hasDoubleJump p"
  "isOnGround (takeDamage p) = isOnGround p"
  "maxHealth (takeDamage p) = maxHealth p"
  "xpos (takeDamage p) = xpos p"
  "ypos (takeDamage p) = ypos p"
  "width (takeDamage p) = width p"
  "height (takeDamage p) = height p"
  "velocityX (takeDamage p) = velocityX p"
  "velocityY (takeDamage p) = velocityY p"
  by (simp_all add: takeDamage_def Let_def)

lemma Player_enemy_step_fields [simp]:
  "doubleJumpAvailable (fst (Player_enemy_step p en)) = doubleJumpAvailable p"
  "hasDoubleJump (fst (Player_enemy_step p en)) = hasDoubleJump p"
  "isOnGround (fst (Player_enemy_step p en)) = isOnGround p"
  "maxHealth (fst (Player_enemy_step p en)) = maxHealth p"
  "xpos (fst (Player_enemy_step p en)) = xpos p"
  "ypos (fst (Player_enemy_step p en)) = ypos p"
  "width (fst (Player_enemy_step p en)) = width p"
  "height (fst (Player_enemy_step p en)) = height p"
  "velocityX (fst (Player_enemy_step p en)) = velocityX p"
  by (simp_all add: Player_enemy_step_def)

lemma enemies_forEach_fields [simp]:
  "doubleJumpAvailable (fst (enemies_forEach p ens)) = doubleJumpAvailable p"
  "hasDoubleJump (fst (enemies_forEach p ens)) = hasDoubleJump p"
  "isOnGround (fst (enemies_forEach p ens)) = isOnGround p"
  "maxHealth (fst (enemies_forEach p ens)) = maxHealth p"
  "xpos (fst (enemies_forEach p ens)) = xpos p"
  "ypos (fst (enemies_forEach p ens)) = ypos p"
  "width (fst (enemies_forEach p ens)) = width p"
  "height (fst (enemies_forEach p ens)) = height p"
  "velocityX (fst (enemies_forEach p ens)) = velocityX p"
  by (induction ens arbitrary: p; simp add: split_beta)+

lemma checkEnemyCollisions_fields [simp]:
  "doubleJumpAvailable (fst (checkEnemyCollisions p ens)) = doubleJumpAvailable p"
  "hasDoubleJump (fst (checkEnemyCollisions p ens)) = hasDoubleJump p"
  "isOnGround (fst (checkEnemyCollisions p ens)) = isOnGround p"
  "maxHealth (fst (checkEnemyCollisions p ens)) = maxHealth p"
  "xpos (fst (checkEnemyCollisions p ens)) = xpos p"
  "ypos (fst (checkEnemyCollisions p ens)) = ypos p"
  "width (fst (checkEnemyCollisions p ens)) = width p"
  "height (fst (checkEnemyCollisions p ens)) = height p"
  "velocityX (fst (checkEnemyCollisions p ens)) = velocityX p"
  by (simp_all add: checkEnemyCollisions_def)

lemma constrainToBounds_fields [simp]:
  "doubleJumpAvailable (constrainToBounds p) = doubleJumpAvailable p"
  "hasDoubleJump (constrainToBounds p) = hasDoubleJump p"
  "isOnGround (constrainToBounds p) = isOnGround p"
  "maxHealth (constrainToBounds p) = maxHealth p"
  "ypos (constrainToBounds p) = ypos p"
  "width (constrainToBounds p) = width p"
  "height (constrainToBounds p) = height p"
  "velocityY (constrainToBounds p) = velocityY p"
  "invincible (constrainToBounds p) = invincible p"
  "invincibleTimer (constrainToBounds p) = invincibleTimer p"
  by (simp_all add: constrainToBounds_def Let_def)

lemma Enemy_platform_step_fields [simp]:
  "xpos (Enemy_platform_step en pl) = xpos en"
  "width (Enemy_platform_step en pl) = width en"
  "patrolStart (Enemy_platform_step en pl) = patrolStart en"
  "patrolEnd (Enemy_platform_step en pl) = patrolEnd en"
  "direction_E (Enemy_platform_step en pl) = direction_E en"
  "defeated (Enemy_platform_step en pl) = defeated en"
  "scoreGiven (Enemy_platform_step en pl) = scoreGiven en"
  by (simp_all add: Enemy_platform_step_def)

lemma Enemy_checkPlatformCollisions_fields [simp]:
  "xpos (Enemy_checkPlatformCollisions en pls) = xpos en"
  "width (Enemy_checkPlatformCollisions en pls) = width en"
  "patrolStart (Enemy_checkPlatformCollisions en pls) = patrolStart en"
  "patrolEnd (Enemy_checkPlatformCollisions en pls) = patrolEnd en"
  "direction_E (Enemy_checkPlatformCollisions en pls) = direction_E en"
  "defeated (Enemy_checkPlatformCollisions en pls) = defeated en"
  "scoreGiven (Enemy_checkPlatformCollisions en pls) = scoreGiven en"
  by (induction pls arbitrary: en; simp)+

text \<open>The last statement of \<open>Player_update\<close> (the invincibility timer) applied to
  what the statements before it leave.\<close>

lemma Player_update_final:
  "fst (Player_update p pls ens) =
     (let t = constrainToBounds (fst (checkEnemyCollisions
                (let q = Player_checkPlatformCollisions
                     (p\<lparr>velocityY := velocityY p + gravity p, xpos := xpos p + velocityX p,
                        ypos := ypos p + (velocityY p + gravity p), isOnGround := False\<rparr>) pls
                 in if isOnGround q \<and> \<not> isOnGround p then q\<lparr>doubleJumpAvailable := True\<rparr> else q)
                ens))
      in if invincible t
         then (if invincibleTimer t - 1 \<le> 0
               then t\<lparr>invincibleTimer := invincibleTimer t - 1, invincible := False\<rparr>
               else t\<lparr>invincibleTimer := invincibleTimer t - 1\<rparr>)
         else t)"
  by (simp add: Player_update_def Let_def split_beta)

text \<open>The statements of \<open>Game_update\<close>, field by field.\<close>

lemma handleInput_fields [simp]:
  "platforms (handleInput g) = platforms g"
  "enemies (handleInput g) = enemies g"
  "collectibles (handleInput g) = collectibles g"
  "score (handleInput g) = score g"
  "highScore (handleInput g) = highScore g"
  by (simp_all add: handleInput_def)

lemma updateCamera_fields [simp]:
  "platforms (updateCamera g) = platforms g"
  "enemies (updateCamera g) = enemies g"
  "collectibles (updateCamera g) = collectibles g"
  "score (updateCamera g) = score g"
  "highScore (updateCamera g) = highScore g"
  "player (updateCamera g) = player g"
  "gameOver (updateCamera g) = gameOver g"
  "gameWon (updateCamera g) = gameWon g"
  by (simp_all add: updateCamera_def Let_def)

lemma checkGameOver_fields [simp]:
  "platforms (checkGameOver g) = platforms g"
  "enemies (checkGameOver g) = enemies g"
  "collectibles (checkGameOver g) = collectibles g"
  "score (checkGameOver g) = score g"
  "player (checkGameOver g) = player g"
  "gameWon (checkGameOver g) = gameWon g"
  by (simp_all add: checkGameOver_def Let_def)

lemma checkWin_fields [simp]:
  "platforms (checkWin g) = platforms g"
  "enemies (checkWin g) = enemies g"
  "collectibles (checkWin g) = collectibles g"
  "score (checkWin g) = score g"
  "player (checkWin g) = player g"
  "gameOver (checkWin g) = gameOver g"
  by (simp_all add: checkWin_def Let_def)

lemma updatePlayer_fields [simp]:
  "platforms (updatePlayer g) = platforms g"
  "collectibles (updatePlayer g) = collectibles g"
  "score (updatePlayer g) = score g"
  "highScore (updatePlayer g) = highScore g"
  "enemies (updatePlayer g) = snd (Player_update (player g) (platforms g) (enemies g))"
  "player (updatePlayer g) = fst (Player_update (player g) (platforms g) (enemies g))"
  by (simp_all add: updatePlayer_def split_beta)

lemma updatePlatforms_fields [simp]:
  "platforms (updatePlatforms g) = map Platform_update (platforms g)"
  "collectibles (updatePlatforms g) = collectibles g"
  "score (updatePlatforms g) = score g"
  "highScore (updatePlatforms g) = highScore g"
  "enemies (updatePlatforms g) = enemies g"
  "player (updatePlatforms g) = player g"
  by (simp_all add: updatePlatforms_def)

lemma updateEnemies_fields [simp]:
  "platforms (updateEnemies g) = platforms g"
  "collectibles (updateEnemies g) = collectibles g"
  "score (updateEnemies g) = score g"
  "highScore (updateEnemies g) = highScore g"
  "enemies (updateEnemies g) = map (\<lambda>en. Enemy_update en (platforms g)) (enemies g)"
  "player (updateEnemies g) = player g"
  by (simp_all add: updateEnemies_def)

lemma updateCollectibles_fields [simp]:
  "platforms (updateCollectibles g) = platforms g"
  "enemies (updateCollectibles g) = enemies g"
  "highScore (updateCollectibles g) = highScore g"
  "score (updateCollectibles g)
     = fst (snd (collectibles_forEach (player g) (score g) (collectibles g)))"
  "collectibles (updateCollectibles g)
     = snd (snd (collectibles_forEach (player g) (score g) (collectibles g)))"
  "player (updateCollectibles g)
     = fst (collectibles_forEach (player g) (score g) (collectibles g))"
  by (simp_all add: updateCollectibles_def split_beta)

lemma awardDefeats_fields [simp]:
  "platforms (awardDefeats g) = platforms g"
  "collectibles (awardDefeats g) = collectibles g"
  "highScore (awardDefeats g) = highScore g"
  "player (awardDefeats g) = player g"
  "score (awardDefeats g) = fst (award_forEach (score g) (enemies g))"
  "enemies (awardDefeats g) = snd (award_forEach (score g) (enemies g))"
  by (simp_all add: awardDefeats_def split_beta)

lemma Game_update_core:
  "\<not> gameOver g \<Longrightarrow> \<not> gameWon g \<Longrightarrow>
   Game_update g = checkWin (checkGameOver (updateCamera (update_core g)))"
  by (simp add: Game_update_def update_core_def Let_def)

lemma Game_update_terminal:
  "gameOver g \<or> gameWon g \<Longrightarrow> Game_update g = g"
  by (simp add: Game_update_def)

lemma phases_isRunning [simp]:
  "isRunning (handleInput g) = isRunning g"
  "isRunning (updatePlayer g) = isRunning g"
  "isRunning (updatePlatforms g) = isRunning g"
  "isRunning (updateEnemies g) = isRunning g"
  "isRunning (updateCollectibles g) = isRunning g"
  "isRunning (awardDefeats g) = isRunning g"
  "isRunning (updateCamera g) = isRunning g"
  "isRunning (checkGameOver g) = isRunning g"
  "isRunning (checkWin g) = isRunning g"
  by (simp_all add: handleInput_def updatePlayer_def updatePlatforms_def updateEnemies_def
      updateCollectibles_def awardDefeats_def updateCamera_def checkGameOver_def checkWin_def
      split_beta Let_def)

lemma Game_update_isRunning: "isRunning (Game_update g) = isRunning g"
  by (cases "gameOver g \<or> gameWon g")
    (simp_all add: Game_update_terminal Game_update_core update_core_def)

lemma phases_flags [simp]:
  "gameOver (updatePlayer g) = gameOver g" "gameWon (updatePlayer g) = gameWon g"
  "gameOver (updatePlatforms g) = gameOver g" "gameWon (updatePlatforms g) = gameWon g"
  "gameOver (updateEnemies g) = gameOver g" "gameWon (updateEnemies g) = gameWon g"
  "gameOver (updateCollectibles g) = gameOver g" "gameWon (updateCollectibles g) = gameWon g"
  "gameOver (awardDefeats g) = gameOver g" "gameWon (awardDefeats g) = gameWon g"
  by (simp_all add: updatePlayer_def updatePlatforms_def updateEnemies_def
      updateCollectibles_def awardDefeats_def split_beta)

lemma update_core_flags [simp]:
  "gameOver (update_core g) = gameOver g" "gameWon (update_core g) = gameWon g"
  by (simp_all add: update_core_def handleInput_def)

section \<open>The collision test\<close>

text \<open>
  Claim C4. \<open>collidesWith\<close> is symmetric; it is false when either entity is inactive;
  it is true exactly when both are active and the boxes overlap strictly on both axes,
  so boxes that only touch along an edge do not collide. The function returns a truth
  value and nothing else: it has no entity to return changed.
\<close>

theorem collidesWith_symmetric_strict:
  "collidesWith a b = collidesWith b a
   \<and> (\<not> active a \<or> \<not> active b \<longrightarrow> \<not> collidesWith a b)
   \<and> (collidesWith a b \<longleftrightarrow>
        active a \<and> active b
        \<and> xpos a < xpos b + width b \<and> xpos b < xpos a + width a
        \<and> ypos a < ypos b + height b \<and> ypos b < ypos a + height a)
   \<and> (xpos a + width a = xpos b \<or> xpos b + width b = xpos a
        \<or> ypos a + height a = ypos b \<or> ypos b + height b = ypos a \<longrightarrow> \<not> collidesWith a b)"
  by (auto simp: collidesWith_def)

theorem collidesWith_symmetric_strict_witness:
  "collidesWith (Player 100 100) (Enemy 120 110 0 380)
   \<and> collidesWith (Enemy 120 110 0 380) (Player 100 100)
   \<and> \<not> collidesWith (Player 100 100) (Enemy 140 100 0 380)
   \<and> \<not> collidesWith (Player 100 100) ((Enemy 120 110 0 380)\<lparr>active := False\<rparr>)"
  using collidesWith_symmetric_strict [of "Player 100 100" "Enemy 120 110 0 380"]
    collidesWith_symmetric_strict [of "Player 100 100" "Enemy 140 100 0 380"]
    collidesWith_symmetric_strict [of "Player 100 100" "(Enemy 120 110 0 380)\<lparr>active := False\<rparr>"]
  by (simp add: Player_def Enemy_def collidesWith_def)

section \<open>Jumping and the double-jump charge\<close>

lemma Player_update_refill:
  "doubleJumpAvailable (fst (Player_update p pls ens)) \<longleftrightarrow>
     doubleJumpAvailable p \<or> (isOnGround (fst (Player_update p pls ens)) \<and> \<not> isOnGround p)"
  by (auto simp: Player_update_def Let_def split_beta)

lemma no_charge_no_midair_jump:
  "\<not> doubleJumpAvailable p \<Longrightarrow> stays_airborne p ops \<Longrightarrow> midair_jumps p ops = 0"
proof (induction ops arbitrary: p)
  case Nil
  then show ?case by simp
next
  case (Cons opn ops)
  have "\<not> doubleJumpAvailable (apply_op p opn)"
  proof (cases opn)
    case (Op_update pls ens)
    with Cons.prems show ?thesis
      using Player_update_refill [of p pls ens] by simp
  qed (use Cons.prems in \<open>simp_all add: jump_def moveLeft_def moveRight_def Player_stop_def heal_def\<close>)
  with Cons show ?case by simp
qed

lemma one_midair_jump:
  "stays_airborne p ops \<Longrightarrow> midair_jumps p ops \<le> 1"
proof (induction ops arbitrary: p)
  case Nil
  then show ?case by simp
next
  case (Cons opn ops)
  show ?case
  proof (cases "opn = Op_jump \<and> \<not> isOnGround p \<and> hasDoubleJump p \<and> doubleJumpAvailable p")
    case True
    then have "\<not> doubleJumpAvailable (apply_op p opn)"
      by (simp add: jump_def)
    with Cons.prems have "midair_jumps (apply_op p opn) ops = 0"
      by (simp add: no_charge_no_midair_jump)
    with True show ?thesis by simp
  next
    case False
    with Cons show ?thesis by auto
  qed
qed

text \<open>
  Claim C7. \<open>jump\<close> on the ground sets the vertical velocity to \<open>- jumpPower\<close> and
  clears \<open>isOnGround\<close>, leaving the charge as it was; off the ground, with
  \<open>hasDoubleJump\<close> and \<open>doubleJumpAvailable\<close>, it sets the same velocity and clears
  \<open>doubleJumpAvailable\<close>; in every other state it returns the player unchanged. After
  an update the charge is available exactly when it was available before or the player
  is on the ground after the update and was not before it. Hence in any sequence of
  operations that keeps the player off the ground at most one jump uses the charge.
\<close>

theorem jump_charge:
  "(isOnGround p \<longrightarrow>
      jump p = p\<lparr>velocityY := - jumpPower p, isOnGround := False\<rparr>
      \<and> doubleJumpAvailable (jump p) = doubleJumpAvailable p)
   \<and> (\<not> isOnGround p \<and> hasDoubleJump p \<and> doubleJumpAvailable p \<longrightarrow>
      jump p = p\<lparr>velocityY := - jumpPower p, doubleJumpAvailable := False\<rparr>)
   \<and> (\<not> isOnGround p \<and> \<not> (hasDoubleJump p \<and> doubleJumpAvailable p) \<longrightarrow> jump p = p)
   \<and> (doubleJumpAvailable (fst (Player_update p pls ens)) \<longleftrightarrow>
        doubleJumpAvailable p \<or> (isOnGround (fst (Player_update p pls ens)) \<and> \<not> isOnGround p))
   \<and> (stays_airborne p ops \<longrightarrow> midair_jumps p ops \<le> 1)"
  using one_midair_jump [of p ops] Player_update_refill [of p pls ens]
  by (simp add: jump_def)

theorem jump_charge_witness:
  "stays_airborne ((Player 100 100)\<lparr>hasDoubleJump := True, doubleJumpAvailable := True\<rparr>)
     [Op_jump, Op_jump, Op_update [] []]
   \<and> midair_jumps ((Player 100 100)\<lparr>hasDoubleJump := True, doubleJumpAvailable := True\<rparr>)
     [Op_jump, Op_jump, Op_update [] []] = 1
   \<and> velocityY (jump ((Player 100 100)\<lparr>hasDoubleJump := True, doubleJumpAvailable := True\<rparr>))
     = - 15
   \<and> \<not> doubleJumpAvailable
         (jump ((Player 100 100)\<lparr>hasDoubleJump := True, doubleJumpAvailable := True\<rparr>))
   \<and> velocityY (jump ((Player 100 100)\<lparr>isOnGround := True\<rparr>)) = - 15
   \<and> \<not> isOnGround (jump ((Player 100 100)\<lparr>isOnGround := True\<rparr>))
   \<and> jump (Player 100 100) = Player 100 100
   \<and> doubleJumpAvailable (fst (Player_update (Player 100 510) [Platform 0 550 400 50] []))"
proof -
  let ?p = "(Player 100 100)\<lparr>hasDoubleJump := True, doubleJumpAvailable := True\<rparr>"
  let ?ops = "[Op_jump, Op_jump, Op_update [] []]"
  have air: "stays_airborne ?p ?ops"
    by (simp add: Player_def jump_def Player_update_def checkEnemyCollisions_def
        constrainToBounds_def Let_def)
  have one: "midair_jumps ?p ?ops \<noteq> 0"
    by (simp add: Player_def jump_def)
  from jump_charge [of ?p "[]" "[]" ?ops] air have "midair_jumps ?p ?ops \<le> 1"
    by blast
  with one have "midair_jumps ?p ?ops = 1" by linarith
  moreover have "velocityY (jump ?p) = - 15 \<and> \<not> doubleJumpAvailable (jump ?p)"
    using jump_charge [of ?p "[]" "[]" "[]"]
    by (simp add: Player_def)
  moreover have "velocityY (jump ((Player 100 100)\<lparr>isOnGround := True\<rparr>)) = - 15
      \<and> \<not> isOnGround (jump ((Player 100 100)\<lparr>isOnGround := True\<rparr>))"
    using jump_charge [of "(Player 100 100)\<lparr>isOnGround := True\<rparr>" "[]" "[]" "[]"]
    by (simp add: Player_def)
  moreover have "jump (Player 100 100) = Player 100 100"
    using jump_charge [of "Player 100 100" "[]" "[]" "[]"]
    by (simp add: Player_def)
  moreover have "doubleJumpAvailable (fst (Player_update (Player 100 510) [Platform 0 550 400 50] []))"
  proof -
    have "isOnGround (fst (Player_update (Player 100 510) [Platform 0 550 400 50] []))"
      by (simp add: Player_update_final Player_def Platform_def Platform_moving_def
          Player_platform_step_def collidesWith_def checkEnemyCollisions_def
          constrainToBounds_def Let_def)
    moreover have "\<not> isOnGround (Player 100 510)"
      by (simp add: Player_def)
    ultimately show ?thesis
      using jump_charge [of "Player 100 510" "[Platform 0 550 400 50]" "[]" "[]"]
      by blast
  qed
  ultimately show ?thesis using air by simp
qed

section \<open>Standing on a platform\<close>

lemma Player_enemy_step_not_falling:
  "velocityY p \<le> 0 \<Longrightarrow> velocityY (fst (Player_enemy_step p en)) = velocityY p"
  by (simp add: Player_enemy_step_def)

lemma enemies_forEach_not_falling:
  "velocityY p \<le> 0 \<Longrightarrow> velocityY (fst (enemies_forEach p ens)) = velocityY p"
  by (induction ens arbitrary: p) (simp_all add: split_beta Player_enemy_step_not_falling)

lemma checkEnemyCollisions_not_falling:
  "velocityY p \<le> 0 \<Longrightarrow> velocityY (fst (checkEnemyCollisions p ens)) = velocityY p"
  by (simp add: checkEnemyCollisions_def enemies_forEach_not_falling)

text \<open>
  Claim C8. A player at \<open>x = 100\<close> with vertical velocity 0, of the constructor's size
  and gravity, whose bottom edge is on the top edge \<open>y = 550\<close> of an active platform
  that lies under the player after the horizontal step: one \<open>Player_update\<close> against
  that platform, whatever the enemies are, leaves \<open>y = 550 - height\<close>, vertical velocity
  0 and \<open>isOnGround\<close> true.
\<close>

theorem rest_on_platform:
  assumes "xpos p = 100" and "velocityY p = 0" and "gravity p = 3 / 5"
    and "width p = 40" and "height p = 40" and "active p"
    and "ypos pl = 550" and "ypos p + height p = ypos pl"
    and "active pl" and "0 < height pl"
    and "xpos pl < xpos p + velocityX p + width p"
    and "xpos p + velocityX p < xpos pl + width pl"
  shows "ypos (fst (Player_update p [pl] ens)) = 550 - height p
    \<and> velocityY (fst (Player_update p [pl] ens)) = 0
    \<and> isOnGround (fst (Player_update p [pl] ens))"
proof -
  define q where "q = p\<lparr>velocityY := velocityY p + gravity p, xpos := xpos p + velocityX p,
    ypos := ypos p + (velocityY p + gravity p), isOnGround := False\<rparr>"
  define r where "r = q\<lparr>ypos := ypos pl - height q, velocityY := 0, isOnGround := True\<rparr>"
  have hit: "collidesWith q pl"
    using assms by (simp add: q_def collidesWith_def)
  have fall: "velocityY q > 0" "ypos q + height q - velocityY q \<le> ypos pl + 5"
    using assms by (simp_all add: q_def)
  have land: "Player_checkPlatformCollisions q [pl] = r"
    using hit fall by (simp add: Player_platform_step_def r_def)
  have r: "ypos r = 550 - height p" "velocityY r = 0" "isOnGround r"
    using assms by (simp_all add: r_def q_def)
  define u where "u = (if \<not> isOnGround p then r\<lparr>doubleJumpAvailable := True\<rparr> else r)"
  have u: "ypos u = 550 - height p" "velocityY u = 0" "isOnGround u"
    using r by (simp_all add: u_def)
  have upd: "fst (Player_update p [pl] ens) =
      (let t = constrainToBounds (fst (checkEnemyCollisions u ens))
       in if invincible t
          then (if invincibleTimer t - 1 \<le> 0
                then t\<lparr>invincibleTimer := invincibleTimer t - 1, invincible := False\<rparr>
                else t\<lparr>invincibleTimer := invincibleTimer t - 1\<rparr>)
          else t)"
    unfolding Player_update_final q_def [symmetric] land
    using r(3) by (simp add: u_def Let_def)
  show ?thesis
    unfolding upd using u
    by (simp add: Let_def checkEnemyCollisions_not_falling)
qed

theorem rest_on_platform_witness:
  "ypos (fst (Player_update (Player 100 510) [Platform 0 550 400 50] [])) = 510
   \<and> velocityY (fst (Player_update (Player 100 510) [Platform 0 550 400 50] [])) = 0
   \<and> isOnGround (fst (Player_update (Player 100 510) [Platform 0 550 400 50] []))"
  using rest_on_platform [of "Player 100 510" "Platform 0 550 400 50" "[]"]
  by (simp add: Player_def Platform_def Platform_moving_def)

section \<open>Collisions of the player with enemies\<close>

lemma enemies_forEach_length [simp]: "length (snd (enemies_forEach p ens)) = length ens"
  by (induction ens arbitrary: p) (simp_all add: split_beta)

lemma enemies_forEach_nth:
  "i < length ens \<Longrightarrow>
   snd (enemies_forEach p ens) ! i
     = snd (Player_enemy_step (fst (enemies_forEach p (take i ens))) (ens ! i))"
proof (induction ens arbitrary: p i)
  case Nil
  then show ?case by simp
next
  case (Cons en ens)
  show ?case
  proof (cases i)
    case 0
    then show ?thesis by (simp add: split_beta)
  next
    case (Suc j)
    with Cons.prems have "j < length ens" by simp
    from Cons.IH [OF this, of "fst (Player_enemy_step p en)"] Suc
    show ?thesis by (simp add: split_beta)
  qed
qed

lemma enemies_forEach_append:
  "fst (enemies_forEach p (ens1 @ ens2))
     = fst (enemies_forEach (fst (enemies_forEach p ens1)) ens2)"
  by (induction ens1 arbitrary: p) (simp_all add: split_beta)

lemma enemies_forEach_take_Suc:
  "i < length ens \<Longrightarrow>
   fst (enemies_forEach p (take (Suc i) ens))
     = fst (Player_enemy_step (fst (enemies_forEach p (take i ens))) (ens ! i))"
  by (simp add: take_Suc_conv_app_nth enemies_forEach_append split_beta)

lemma list_of_two: "length xs = 2 \<Longrightarrow> xs ! 0 = a \<Longrightarrow> xs ! 1 = b \<Longrightarrow> xs = [a, b]"
  by (auto simp: length_Suc_conv numeral_2_eq_2)

lemma enemies_forEach_foldl:
  "fst (enemies_forEach p ens) = foldl (\<lambda>q en. fst (Player_enemy_step q en)) p ens"
  by (induction ens arbitrary: p) (simp_all add: split_beta)

lemma platform_landing_tolerance:
  "collidesWith q pl \<Longrightarrow>
   isOnGround (Player_platform_step (q\<lparr>isOnGround := False\<rparr>) pl)
     \<longleftrightarrow> velocityY q > 0 \<and> ypos q + height q - velocityY q \<le> ypos pl + 5"
  by (auto simp: Player_platform_step_def collidesWith_def)

lemma platform_landing:
  "collidesWith q pl \<and> velocityY q > 0
     \<and> ypos q + height q - velocityY q \<le> ypos pl + 5 \<longrightarrow>
   Player_platform_step q pl
     = q\<lparr>ypos := ypos pl - height q, velocityY := 0, isOnGround := True\<rparr>"
  by (simp add: Player_platform_step_def)

lemma Player_enemy_step_cases:
  "(collidesWith q en \<and> velocityY q > 0
        \<and> ypos q + height q - velocityY q \<le> ypos en + 10 \<longrightarrow>
        Player_enemy_step q en = (q\<lparr>velocityY := - 10\<rparr>, defeat en))"
  "(collidesWith q en
        \<and> \<not> (velocityY q > 0 \<and> ypos q + height q - velocityY q \<le> ypos en + 10) \<longrightarrow>
        Player_enemy_step q en = (takeDamage q, en))"
  "(\<not> collidesWith q en \<longrightarrow> Player_enemy_step q en = (q, en))"
  by (simp_all add: Player_enemy_step_def)

lemma landing_implies_stomp:
  "collidesWith q pl \<and> collidesWith q en \<and> ypos pl = ypos en
     \<and> isOnGround (Player_platform_step (q\<lparr>isOnGround := False\<rparr>) pl) \<longrightarrow>
   Player_enemy_step q en = (q\<lparr>velocityY := - 10\<rparr>, defeat en)"
  using platform_landing_tolerance [of q pl]
  by (auto simp: Player_enemy_step_def)

text \<open>
  Claim C3, as the code has it. While the player is invincible \<open>checkEnemyCollisions\<close>
  changes nothing. Otherwise the enemies are treated in the order of the list: the player
  it returns is the given one taken through \<open>Player_enemy_step\<close> for each enemy in turn,
  and the enemy it returns at each position is the one \<open>Player_enemy_step\<close> leaves for
  the player as the enemies before it left it. In that step, for an enemy that overlaps
  the player: if the player falls (vertical velocity above 0) and its bottom edge less
  that velocity is at most 10 below the enemy's top edge, the enemy is defeated and the
  player's vertical velocity becomes \<open>- 10\<close>; in every other case of overlap
  \<open>takeDamage\<close> is applied to the player; an enemy that does not overlap changes
  nothing. The tolerance 10 is deeper than that of landing on a platform: a player that
  overlaps a platform lands on it exactly when it falls and its bottom edge less the
  velocity is at most 5 below the platform's top edge, so whatever lands on a top edge
  also defeats an enemy with that top edge.
\<close>

theorem enemy_collision_resolution:
  "(invincible p \<longrightarrow> checkEnemyCollisions p ens = (p, ens))
   \<and> (\<not> invincible p \<longrightarrow>
        fst (checkEnemyCollisions p ens)
          = foldl (\<lambda>q en. fst (Player_enemy_step q en)) p ens
        \<and> length (snd (checkEnemyCollisions p ens)) = length ens)
   \<and> (\<not> invincible p \<and> i < length ens \<longrightarrow>
        snd (checkEnemyCollisions p ens) ! i
          = snd (Player_enemy_step
                   (foldl (\<lambda>q en. fst (Player_enemy_step q en)) p (take i ens)) (ens ! i)))
   \<and> (collidesWith q en \<and> velocityY q > 0
        \<and> ypos q + height q - velocityY q \<le> ypos en + 10 \<longrightarrow>
        Player_enemy_step q en = (q\<lparr>velocityY := - 10\<rparr>, defeat en))
   \<and> (collidesWith q en
        \<and> \<not> (velocityY q > 0 \<and> ypos q + height q - velocityY q \<le> ypos en + 10) \<longrightarrow>
        Player_enemy_step q en = (takeDamage q, en))
   \<and> (\<not> collidesWith q en \<longrightarrow> Player_enemy_step q en = (q, en))
   \<and> (collidesWith q pl \<longrightarrow>
        (isOnGround (Player_platform_step (q\<lparr>isOnGround := False\<rparr>) pl)
          \<longleftrightarrow> velocityY q > 0 \<and> ypos q + height q - velocityY q \<le> ypos pl + 5))
   \<and> (collidesWith q pl \<and> velocityY q > 0
        \<and> ypos q + height q - velocityY q \<le> ypos pl + 5 \<longrightarrow>
        Player_platform_step q pl
          = q\<lparr>ypos := ypos pl - height q, velocityY := 0, isOnGround := True\<rparr>)
   \<and> (collidesWith q pl \<and> collidesWith q en \<and> ypos pl = ypos en
        \<and> isOnGround (Player_platform_step (q\<lparr>isOnGround := False\<rparr>) pl) \<longrightarrow>
        Player_enemy_step q en = (q\<lparr>velocityY := - 10\<rparr>, defeat en))"
proof -
  have skip: "invincible p \<longrightarrow> checkEnemyCollisions p ens = (p, ens)"
    by (simp add: checkEnemyCollisions_def)
  have player: "\<not> invincible p \<longrightarrow>
        fst (checkEnemyCollisions p ens)
          = foldl (\<lambda>q en. fst (Player_enemy_step q en)) p ens
        \<and> length (snd (checkEnemyCollisions p ens)) = length ens"
    by (simp add: checkEnemyCollisions_def enemies_forEach_foldl)
  have each: "\<not> invincible p \<and> i < length ens \<longrightarrow>
        snd (checkEnemyCollisions p ens) ! i
          = snd (Player_enemy_step
                   (foldl (\<lambda>q en. fst (Player_enemy_step q en)) p (take i ens)) (ens ! i))"
    using enemies_forEach_nth [of i ens p]
    by (simp add: checkEnemyCollisions_def enemies_forEach_foldl)
  have land: "collidesWith q pl \<longrightarrow>
        (isOnGround (Player_platform_step (q\<lparr>isOnGround := False\<rparr>) pl)
          \<longleftrightarrow> velocityY q > 0 \<and> ypos q + height q - velocityY q \<le> ypos pl + 5)"
    using platform_landing_tolerance [of q pl] by blast
  show ?thesis
    by (intro conjI skip player each Player_enemy_step_cases land platform_landing
        landing_implies_stomp)
qed

theorem enemy_collision_resolution_witness:
  "checkEnemyCollisions ((Player 100 100)\<lparr>velocityY := 3\<rparr>)
       [Enemy 100 130 0 380, Enemy 120 130 0 380]
     = (takeDamage ((Player 100 100)\<lparr>velocityY := - 10\<rparr>),
        [defeat (Enemy 100 130 0 380), Enemy 120 130 0 380])
   \<and> health (fst (checkEnemyCollisions ((Player 100 100)\<lparr>velocityY := 3\<rparr>)
       [Enemy 100 130 0 380, Enemy 120 130 0 380])) = 4
   \<and> Player_enemy_step (Player 100 100) (Enemy 200 510 0 380)
     = (Player 100 100, Enemy 200 510 0 380)
   \<and> checkEnemyCollisions ((Player 100 100)\<lparr>invincible := True\<rparr>) [Enemy 100 130 0 380]
     = ((Player 100 100)\<lparr>invincible := True\<rparr>, [Enemy 100 130 0 380])
   \<and> Player_platform_step ((Player 100 100)\<lparr>velocityY := 3\<rparr>) (Platform 100 139 35 35)
     = (Player 100 99)\<lparr>isOnGround := True\<rparr>
   \<and> Player_enemy_step ((Player 100 100)\<lparr>velocityY := 3\<rparr>) (Enemy 100 139 0 380)
     = ((Player 100 100)\<lparr>velocityY := - 10\<rparr>, defeat (Enemy 100 139 0 380))"
proof -
  let ?p = "(Player 100 100)\<lparr>velocityY := 3\<rparr>"
  let ?p1 = "(Player 100 100)\<lparr>velocityY := - 10\<rparr>"
  let ?e1 = "Enemy 100 130 0 380"
  let ?e2 = "Enemy 120 130 0 380"
  let ?e3 = "Enemy 100 139 0 380"
  let ?pl = "Platform 100 139 35 35"
  have hit: "collidesWith ?p ?e1" "collidesWith ?p1 ?e2"
    "\<not> collidesWith (Player 100 100) (Enemy 200 510 0 380)"
    "collidesWith ?p ?pl" "collidesWith ?p ?e3" "ypos ?pl = ypos ?e3"
    by (simp_all add: collidesWith_def Player_def Enemy_def Platform_def Platform_moving_def)
  have fall: "velocityY ?p > 0" "ypos ?p + height ?p - velocityY ?p \<le> ypos ?e1 + 10"
    "\<not> velocityY ?p1 > 0" "ypos ?p + height ?p - velocityY ?p \<le> ypos ?pl + 5"
    "\<not> invincible ?p" "invincible ((Player 100 100)\<lparr>invincible := True\<rparr>)"
    by (simp_all add: Player_def Enemy_def Platform_def Platform_moving_def)
  note thm1 = enemy_collision_resolution [where p = ?p and ens = "[?e1, ?e2]" and q = ?p
      and en = ?e1 and pl = ?pl]
  note thm2 = enemy_collision_resolution [where p = ?p and ens = "[?e1, ?e2]" and q = ?p1
      and en = ?e2 and pl = ?pl]
  note thm3 = enemy_collision_resolution [where p = "(Player 100 100)\<lparr>invincible := True\<rparr>"
      and ens = "[?e1]" and i = 0 and q = "Player 100 100" and en = "Enemy 200 510 0 380"
      and pl = ?pl]
  note thm4 = enemy_collision_resolution [where p = ?p and ens = "[]" and i = 0 and q = ?p
      and en = ?e3 and pl = ?pl]
  have s1: "Player_enemy_step ?p ?e1 = (?p1, defeat ?e1)"
    using thm1 [where i = 0] hit(1) fall(1,2) by (simp add: Player_def)
  have s2: "Player_enemy_step ?p1 ?e2 = (takeDamage ?p1, ?e2)"
    using thm2 [where i = 0] hit(2) fall(3) by blast
  have pl: "fst (checkEnemyCollisions ?p [?e1, ?e2]) = takeDamage ?p1"
    using thm1 [where i = 0] fall(5) by (simp add: s1 s2)
  have len: "length (snd (checkEnemyCollisions ?p [?e1, ?e2])) = 2"
    using thm1 [where i = 0] fall(5) by simp
  have n0: "snd (checkEnemyCollisions ?p [?e1, ?e2]) ! 0 = defeat ?e1"
    using thm1 [where i = 0] fall(5) by (simp add: s1)
  have n1: "snd (checkEnemyCollisions ?p [?e1, ?e2]) ! 1 = ?e2"
    using thm1 [where i = 1] fall(5) by (simp add: s1 s2)
  have ens: "snd (checkEnemyCollisions ?p [?e1, ?e2]) = [defeat ?e1, ?e2]"
    using len n0 n1 by (rule list_of_two)
  have a: "checkEnemyCollisions ?p [?e1, ?e2] = (takeDamage ?p1, [defeat ?e1, ?e2])"
    using pl ens by (simp add: prod_eq_iff)
  have b: "health (fst (checkEnemyCollisions ?p [?e1, ?e2])) = 4"
    unfolding a by (simp add: takeDamage_def Player_def Let_def)
  have c: "Player_enemy_step (Player 100 100) (Enemy 200 510 0 380)
      = (Player 100 100, Enemy 200 510 0 380)"
    using thm3 hit(3) by blast
  have d: "checkEnemyCollisions ((Player 100 100)\<lparr>invincible := True\<rparr>) [?e1]
      = ((Player 100 100)\<lparr>invincible := True\<rparr>, [?e1])"
    using thm3 fall(6) by blast
  have "Player_platform_step ?p ?pl
      = ?p\<lparr>ypos := ypos ?pl - height ?p, velocityY := 0, isOnGround := True\<rparr>"
    using thm4 hit(4) fall(1,4) by blast
  then have e: "Player_platform_step ?p ?pl = (Player 100 99)\<lparr>isOnGround := True\<rparr>"
    by (simp add: Player_def Platform_def Platform_moving_def)
  have "isOnGround (Player_platform_step (?p\<lparr>isOnGround := False\<rparr>) ?pl)"
    using thm4 hit(4) fall(1,4) by blast
  then have f: "Player_enemy_step ?p ?e3 = (?p1, defeat ?e3)"
    using thm4 hit(4,5,6) by (simp add: Player_def)
  show ?thesis using a b c d e f by simp
qed

text \<open>The claim as the specification words it has the tolerance for enemies shallower
  than the one for platforms. A player that falls with velocity 3 and whose bottom edge
  was 7 below the top edge of an enemy defeats it, while the same box as a platform does
  not count as landed on.\<close>

theorem enemy_tolerance_counterexample:
  "collidesWith ((Player 100 100)\<lparr>velocityY := 3\<rparr>) (Enemy 100 130 0 380)
   \<and> ypos ((Player 100 100)\<lparr>velocityY := 3\<rparr>) + height ((Player 100 100)\<lparr>velocityY := 3\<rparr>)
       - velocityY ((Player 100 100)\<lparr>velocityY := 3\<rparr>)
     = ypos (Enemy 100 130 0 380) + 7
   \<and> defeated (snd (Player_enemy_step ((Player 100 100)\<lparr>velocityY := 3\<rparr>) (Enemy 100 130 0 380)))
   \<and> collidesWith ((Player 100 100)\<lparr>velocityY := 3\<rparr>) (Platform 100 130 35 35)
   \<and> \<not> isOnGround (Player_platform_step ((Player 100 100)\<lparr>velocityY := 3\<rparr>) (Platform 100 130 35 35))"
  by (simp add: Player_def Enemy_def Platform_def Platform_moving_def collidesWith_def
      Player_enemy_step_def Player_platform_step_def defeat_def)

section \<open>Health of the player\<close>

lemma health_inv_cong:
  "health q = health p \<Longrightarrow> maxHealth q = maxHealth p \<Longrightarrow> active q = active p \<Longrightarrow>
   health_inv q = health_inv p"
  by (simp add: health_inv_def)

lemma takeDamage_health_inv:
  "health_inv p \<Longrightarrow> active p \<or> invincible p \<Longrightarrow> health_inv (takeDamage p)"
  by (auto simp: health_inv_def takeDamage_def Let_def)

lemma heal_health_inv:
  "health_inv p \<Longrightarrow> active p \<Longrightarrow> 0 \<le> amount \<Longrightarrow> health_inv (heal p amount)"
  by (auto simp: health_inv_def heal_def)

lemma Player_enemy_step_health_inv:
  "health_inv p \<Longrightarrow> health_inv (fst (Player_enemy_step p en))"
  by (auto simp: Player_enemy_step_def takeDamage_health_inv collidesWith_def
      intro: health_inv_cong [THEN iffD2])

lemma enemies_forEach_health_inv:
  "health_inv p \<Longrightarrow> health_inv (fst (enemies_forEach p ens))"
  by (induction ens arbitrary: p) (simp_all add: split_beta Player_enemy_step_health_inv)

lemma checkEnemyCollisions_health_inv:
  "health_inv p \<Longrightarrow> health_inv (fst (checkEnemyCollisions p ens))"
  by (simp add: checkEnemyCollisions_def enemies_forEach_health_inv)

lemma constrainToBounds_health_inv:
  "health_inv p \<Longrightarrow> health_inv (constrainToBounds p)"
  by (auto simp: constrainToBounds_def Let_def health_inv_def)

lemma Player_update_health_inv:
  assumes "health_inv p"
  shows "health_inv (fst (Player_update p pls ens))"
proof -
  define q where "q = Player_checkPlatformCollisions
     (p\<lparr>velocityY := velocityY p + gravity p, xpos := xpos p + velocityX p,
        ypos := ypos p + (velocityY p + gravity p), isOnGround := False\<rparr>) pls"
  define r where "r = (if isOnGround q \<and> \<not> isOnGround p then q\<lparr>doubleJumpAvailable := True\<rparr> else q)"
  define t where "t = constrainToBounds (fst (checkEnemyCollisions r ens))"
  have "health_inv q"
    using assms by (simp add: q_def health_inv_def)
  then have "health_inv r"
    by (simp add: r_def health_inv_def)
  then have t: "health_inv t"
    by (simp add: t_def checkEnemyCollisions_health_inv constrainToBounds_health_inv)
  have "fst (Player_update p pls ens) =
      (if invincible t
       then (if invincibleTimer t - 1 \<le> 0
             then t\<lparr>invincibleTimer := invincibleTimer t - 1, invincible := False\<rparr>
             else t\<lparr>invincibleTimer := invincibleTimer t - 1\<rparr>)
       else t)"
    by (simp add: Player_update_def Let_def split_beta t_def r_def q_def)
  with t show ?thesis
    by (simp add: health_inv_def)
qed

lemma apply_op_health_inv:
  "health_inv p \<Longrightarrow> ops_on_active p [opn] \<Longrightarrow> health_inv (apply_op p opn)"
  by (cases opn)
    (simp_all add: Player_update_health_inv takeDamage_health_inv heal_health_inv,
     simp_all add: health_inv_def jump_def moveLeft_def moveRight_def Player_stop_def)

lemma ops_health_inv:
  "health_inv p \<Longrightarrow> ops_on_active p ops \<Longrightarrow> health_inv (foldl apply_op p ops)"
proof (induction ops arbitrary: p)
  case Nil
  then show ?case by simp
next
  case (Cons opn ops)
  from Cons.prems have "health_inv (apply_op p opn)"
    by (intro apply_op_health_inv) simp_all
  with Cons show ?case by simp
qed

lemma takeDamage_active:
  "active (takeDamage p) \<longleftrightarrow> active p \<and> (invincible p \<or> 1 < health p)"
  by (auto simp: takeDamage_def Let_def)

lemma enemies_forEach_dies:
  "health_inv p \<Longrightarrow> active p \<Longrightarrow> \<not> active (fst (enemies_forEach p ens)) \<Longrightarrow>
   health p = 1 \<and> \<not> invincible p"
proof (induction ens arbitrary: p)
  case Nil
  then show ?case by simp
next
  case (Cons en ens)
  define p1 where "p1 = fst (Player_enemy_step p en)"
  have inv1: "health_inv p1"
    using Cons.prems(1) by (simp add: p1_def Player_enemy_step_health_inv)
  have rest: "\<not> active (fst (enemies_forEach p1 ens))"
    using Cons.prems(3) by (simp add: split_beta p1_def)
  show ?case
  proof (cases "active p1")
    case True
    from Cons.IH [OF inv1 True rest] have "health p1 = 1" "\<not> invincible p1" by simp_all
    then show ?thesis
      by (auto simp: p1_def Player_enemy_step_def takeDamage_def Let_def split: if_splits)
  next
    case False
    with Cons.prems(1,2) show ?thesis
      by (auto simp: p1_def Player_enemy_step_def takeDamage_def Let_def health_inv_def
          split: if_splits)
  qed
qed

lemma Player_update_fall:
  "600 < ypos (fst (Player_update p pls ens)) \<Longrightarrow>
   health (fst (Player_update p pls ens)) = 0 \<and> \<not> active (fst (Player_update p pls ens))"
  unfolding Player_update_final
  by (auto simp: Let_def constrainToBounds_def split: if_splits)

lemma Player_update_dies:
  assumes "health_inv p" and "active p" and "\<not> active (fst (Player_update p pls ens))"
  shows "600 < ypos (fst (Player_update p pls ens)) \<or> (health p = 1 \<and> \<not> invincible p)"
proof -
  define q where "q = Player_checkPlatformCollisions
     (p\<lparr>velocityY := velocityY p + gravity p, xpos := xpos p + velocityX p,
        ypos := ypos p + (velocityY p + gravity p), isOnGround := False\<rparr>) pls"
  define r where "r = (if isOnGround q \<and> \<not> isOnGround p then q\<lparr>doubleJumpAvailable := True\<rparr> else q)"
  define u where "u = fst (checkEnemyCollisions r ens)"
  have r: "health_inv r" "active r" "health r = health p" "invincible r = invincible p"
    using assms(1,2) by (simp_all add: r_def q_def health_inv_def)
  have fin: "fst (Player_update p pls ens) =
      (let t = constrainToBounds u
       in if invincible t
         then (if invincibleTimer t - 1 \<le> 0
               then t\<lparr>invincibleTimer := invincibleTimer t - 1, invincible := False\<rparr>
               else t\<lparr>invincibleTimer := invincibleTimer t - 1\<rparr>)
         else t)"
    by (simp add: Player_update_final u_def r_def q_def Let_def)
  show ?thesis
  proof (cases "active u")
    case True
    with assms(3) show ?thesis
      unfolding fin by (auto simp: Let_def constrainToBounds_def split: if_splits)
  next
    case False
    then have "\<not> invincible r" "\<not> active (fst (enemies_forEach r ens))"
      using r(2) by (auto simp: u_def checkEnemyCollisions_def split: if_splits)
    from enemies_forEach_dies [OF r(1) r(2) this(2)] r(3,4) show ?thesis by simp
  qed
qed

lemma collectible_step_health_inv:
  "health_inv pl \<Longrightarrow> health_inv (fst (collectible_step pl sc c))"
proof -
  assume inv: "health_inv pl"
  have unlock: "health_inv (pl\<lparr>hasDoubleJump := True\<rparr>)"
    using inv by (simp add: health_inv_def)
  have "collidesWith pl (Collectible_update c) \<Longrightarrow> health_inv (heal pl 1)"
    using inv by (intro heal_health_inv) (simp_all add: collidesWith_def)
  with inv unlock show ?thesis
    by (simp add: collectible_step_def collect_def Let_def)
qed

lemma collectibles_forEach_health_inv:
  "health_inv pl \<Longrightarrow> health_inv (fst (collectibles_forEach pl sc cs))"
  by (induction cs arbitrary: pl sc) (simp_all add: split_beta collectible_step_health_inv)

lemma handleInput_health_inv:
  "health_inv (player g) \<Longrightarrow> health_inv (player (handleInput g))"
  by (simp add: handleInput_def health_inv_def moveLeft_def moveRight_def Player_stop_def)

lemma update_core_health_inv:
  "health_inv (player g) \<Longrightarrow> health_inv (player (update_core g))"
  by (simp add: update_core_def collectibles_forEach_health_inv Player_update_health_inv
      handleInput_health_inv)

lemma Game_update_health_inv:
  "health_inv (player g) \<Longrightarrow> health_inv (player (Game_update g))"
  by (cases "gameOver g \<or> gameWon g")
    (simp_all add: Game_update_terminal Game_update_core update_core_health_inv)

lemma start_health_inv: "health_inv (player g) \<Longrightarrow> health_inv (player (start g))"
  using Game_update_health_inv [of "g\<lparr>isRunning := True\<rparr>"]
  by (simp add: start_def gameLoop_def)

lemma Player_health_inv: "health_inv (Player x0 y0)"
  by (simp add: health_inv_def Player_def)

lemma reset_health_inv: "health_inv (player (reset g))"
  by (simp add: reset_def Let_def start_health_inv initLevel_def Player_health_inv)

lemma game_step_health_inv:
  "health_inv (player g) \<Longrightarrow> health_inv (player (game_step g ev))"
  by (cases ev)
    (simp_all add: gameLoop_def Game_update_health_inv start_health_inv reset_health_inv
      handleKeyDown_def Let_def handleKeyUp_def Game_stop_def,
     simp_all add: health_inv_def jump_def)

lemma game_run_health_inv:
  "health_inv (player g) \<Longrightarrow> health_inv (player (game_run g evs))"
  unfolding game_run_def
  by (induction evs arbitrary: g) (simp_all add: game_step_health_inv)

lemma Game_health_inv: "health_inv (player Game)"
  by (simp add: Game_def initLevel_def Player_health_inv)

text \<open>
  Claim C2, as the code has it. Over every sequence of operations on a player in which
  \<open>takeDamage\<close> and \<open>heal\<close> are applied only while the player is active, and \<open>heal\<close>
  with an amount that is not negative (the game calls both only for a player that
  \<open>collidesWith\<close> something, hence an active one, and heals by 1), the health stays in
  \<open>[0, maxHealth]\<close> and is 0 exactly when the player is inactive. A newly constructed
  player satisfies this. \<open>takeDamage\<close> leaves the player active exactly when it was
  invincible or had more than one health point; an update that ends with \<open>y > 600\<close>
  ends with health 0 and the player inactive; and an update turns an active player
  inactive only in those two ways. The player of every state that a sequence of events
  leads to from the constructed game satisfies the invariant.
\<close>

theorem health_range_active_ops:
  "(health_inv p \<and> ops_on_active p ops \<longrightarrow> health_inv (foldl apply_op p ops))
   \<and> health_inv (Player x0 y0)
   \<and> (active (takeDamage p) \<longleftrightarrow> active p \<and> (invincible p \<or> 1 < health p))
   \<and> (600 < ypos (fst (Player_update p pls ens)) \<longrightarrow>
        health (fst (Player_update p pls ens)) = 0 \<and> \<not> active (fst (Player_update p pls ens)))
   \<and> (health_inv p \<and> active p \<and> \<not> active (fst (Player_update p pls ens)) \<longrightarrow>
        600 < ypos (fst (Player_update p pls ens)) \<or> (health p = 1 \<and> \<not> invincible p))
   \<and> health_inv (player (game_run Game evs))"
proof -
  have "health_inv (Player x0 y0)"
    by (rule Player_health_inv)
  moreover have "health_inv (player (game_run Game evs))"
    by (rule game_run_health_inv) (rule Game_health_inv)
  ultimately show ?thesis
    using ops_health_inv [of p ops] takeDamage_active [of p]
      Player_update_fall [of p pls ens] Player_update_dies [of p pls ens]
    by blast
qed

theorem health_range_active_ops_witness:
  "health_inv (Player 100 100)
   \<and> ops_on_active (Player 100 100) [Op_takeDamage, Op_heal 1, Op_update [] []]
   \<and> health_inv (foldl apply_op (Player 100 100) [Op_takeDamage, Op_heal 1, Op_update [] []])
   \<and> health (foldl apply_op (Player 100 100) [Op_takeDamage, Op_heal 1, Op_update [] []]) = 5
   \<and> \<not> active (fst (Player_update (Player 100 600) [] []))"
proof -
  have a: "health_inv (Player 100 100)"
    by (simp add: health_inv_def Player_def)
  have b: "ops_on_active (Player 100 100) [Op_takeDamage, Op_heal 1, Op_update [] []]"
    by (simp add: Player_def takeDamage_def heal_def Let_def)
  have c: "health (foldl apply_op (Player 100 100) [Op_takeDamage, Op_heal 1, Op_update [] []]) = 5"
    by (simp add: Player_def takeDamage_def heal_def Let_def Player_update_def
        checkEnemyCollisions_def constrainToBounds_def)
  have d: "600 < ypos (fst (Player_update (Player 100 600) [] []))"
    by (simp add: Player_def Player_update_def checkEnemyCollisions_def constrainToBounds_def Let_def)
  show ?thesis
    using a b c d
      health_range_active_ops [of "Player 100 100" "[Op_takeDamage, Op_heal 1, Op_update [] []]"
        100 100 "[]" "[]"]
      health_range_active_ops [of "Player 100 600" "[]" 100 600 "[]" "[]"]
    by simp
qed

text \<open>The claim as the specification words it ranges over every sequence of the
  three operations. A player that fell below \<open>y = 600\<close> is inactive with health 0;
  \<open>takeDamage\<close> then takes the health to \<open>- 1\<close>, and \<open>heal\<close> makes it 1 while the
  player stays inactive.\<close>

theorem health_after_death_counterexample:
  "\<not> active (fst (Player_update (Player 100 600) [] []))
   \<and> health (fst (Player_update (Player 100 600) [] [])) = 0
   \<and> health (takeDamage (fst (Player_update (Player 100 600) [] []))) = - 1
   \<and> health (heal (fst (Player_update (Player 100 600) [] [])) 1) = 1
   \<and> \<not> active (heal (fst (Player_update (Player 100 600) [] [])) 1)"
  by (simp add: Player_def Player_update_def checkEnemyCollisions_def constrainToBounds_def
      takeDamage_def heal_def Let_def)

section \<open>The score\<close>

lemma Player_enemy_step_flags [simp]:
  "scoreGiven (snd (Player_enemy_step p en)) = scoreGiven en"
  "defeated en \<Longrightarrow> defeated (snd (Player_enemy_step p en))"
  by (simp_all add: Player_enemy_step_def defeat_def)

lemma enemies_forEach_scoreGiven [simp]:
  "map scoreGiven (snd (enemies_forEach p ens)) = map scoreGiven ens"
  by (induction ens arbitrary: p) (simp_all add: split_beta)

lemma enemies_forEach_defeated:
  "list_all (\<lambda>e. scoreGiven e \<longrightarrow> defeated e) ens \<Longrightarrow>
   list_all (\<lambda>e. scoreGiven e \<longrightarrow> defeated e) (snd (enemies_forEach p ens))"
  by (induction ens arbitrary: p) (simp_all add: split_beta)

lemma Player_update_enemies:
  "snd (Player_update p pls ens) =
     snd (checkEnemyCollisions
       (let q = Player_checkPlatformCollisions
            (p\<lparr>velocityY := velocityY p + gravity p, xpos := xpos p + velocityX p,
               ypos := ypos p + (velocityY p + gravity p), isOnGround := False\<rparr>) pls
        in if isOnGround q \<and> \<not> isOnGround p then q\<lparr>doubleJumpAvailable := True\<rparr> else q) ens)"
  by (simp add: Player_update_def Let_def split_beta)

lemma Player_update_scoreGiven [simp]:
  "map scoreGiven (snd (Player_update p pls ens)) = map scoreGiven ens"
  by (simp add: Player_update_enemies checkEnemyCollisions_def)

lemma Player_update_defeated:
  "list_all (\<lambda>e. scoreGiven e \<longrightarrow> defeated e) ens \<Longrightarrow>
   list_all (\<lambda>e. scoreGiven e \<longrightarrow> defeated e) (snd (Player_update p pls ens))"
  by (simp add: Player_update_enemies checkEnemyCollisions_def enemies_forEach_defeated)

lemma Enemy_update_flags [simp]:
  "scoreGiven (Enemy_update en pls) = scoreGiven en"
  "defeated (Enemy_update en pls) = defeated en"
  by (simp_all add: Enemy_update_def Let_def)

lemma award_forEach_score:
  "fst (award_forEach sc ens)
     = sc + 50 * int (length (filter (\<lambda>e. defeated e \<and> \<not> scoreGiven e) ens))"
  by (induction ens arbitrary: sc) (simp_all add: split_beta award_step_def)

lemma award_forEach_flags:
  "map scoreGiven (snd (award_forEach sc ens)) = map (\<lambda>e. scoreGiven e \<or> defeated e) ens"
  "map defeated (snd (award_forEach sc ens)) = map defeated ens"
  by (induction ens arbitrary: sc; auto simp: split_beta award_step_def)+

lemma award_forEach_again:
  "award_forEach (fst (award_forEach sc ens)) (snd (award_forEach sc ens))
     = award_forEach sc ens"
  by (induction ens arbitrary: sc) (simp_all add: split_beta award_step_def)

lemma length_filter_map: "length (filter P xs) = length (filter (\<lambda>b. b) (map P xs))"
  by (induction xs) simp_all

lemma newly_defeated_count:
  "list_all (\<lambda>e. scoreGiven e \<longrightarrow> defeated e) ens \<Longrightarrow>
   int (length (filter defeated ens))
     = int (length (filter scoreGiven ens))
       + int (length (filter (\<lambda>e. defeated e \<and> \<not> scoreGiven e) ens))"
  by (induction ens) auto

lemma collectible_step_points:
  "fst (snd (collectible_step pl sc c)) - points (snd (snd (collectible_step pl sc c)))
     = sc - points c"
  by (simp add: collectible_step_def collect_def Collectible_update_def points_def Let_def)

lemma collectibles_forEach_points:
  "fst (snd (collectibles_forEach pl sc cs))
     - collected_points (snd (snd (collectibles_forEach pl sc cs)))
   = sc - collected_points cs"
proof (induction cs arbitrary: pl sc)
  case Nil
  then show ?case by (simp add: collected_points_def)
next
  case (Cons c cs)
  from Cons.IH [of "fst (collectible_step pl sc c)" "fst (snd (collectible_step pl sc c))"]
    collectible_step_points [of pl sc c]
  show ?case by (simp add: split_beta collected_points_def)
qed

lemma collectible_step_mono:
  "0 \<le> cvalue c \<Longrightarrow> sc \<le> fst (snd (collectible_step pl sc c))"
  by (simp add: collectible_step_def collect_def Collectible_update_def Let_def)

lemma collectible_step_cvalue [simp]:
  "cvalue (snd (snd (collectible_step pl sc c))) = cvalue c"
  by (simp add: collectible_step_def collect_def Collectible_update_def Let_def)

lemma collectibles_forEach_mono:
  "list_all (\<lambda>c. 0 \<le> cvalue c) cs \<Longrightarrow> sc \<le> fst (snd (collectibles_forEach pl sc cs))"
proof (induction cs arbitrary: pl sc)
  case Nil
  then show ?case by simp
next
  case (Cons c cs)
  from Cons.prems have "sc \<le> fst (snd (collectible_step pl sc c))"
    by (simp add: collectible_step_mono)
  also from Cons have "\<dots> \<le> fst (snd (collectibles_forEach (fst (collectible_step pl sc c))
      (fst (snd (collectible_step pl sc c))) cs))"
    by simp
  finally show ?case by (simp add: split_beta)
qed

lemma collectibles_forEach_cvalue [simp]:
  "map cvalue (snd (snd (collectibles_forEach pl sc cs))) = map cvalue cs"
  by (induction cs arbitrary: pl sc) (simp_all add: split_beta)

lemma updatePlayer_score_inv_half:
  assumes "map scoreGiven (enemies g) = map defeated (enemies g)"
  shows "list_all (\<lambda>e. scoreGiven e \<longrightarrow> defeated e) (enemies g)"
proof -
  from assms have "\<forall>e \<in> set (enemies g). scoreGiven e = defeated e"
    by (simp add: map_eq_conv)
  then show ?thesis by (simp add: list_all_iff)
qed


lemma count_by_map:
  "map P xs = map Q ys \<Longrightarrow> length (filter P xs) = length (filter Q ys)"
  using length_filter_map [of P xs] length_filter_map [of Q ys] by simp

lemma update_core_score_inv:
  assumes "score_inv g"
  shows "score_inv (update_core g)"
proof -
  define pu where "pu = Player_update (player (handleInput g)) (platforms g) (enemies g)"
  define ens2 where
    "ens2 = map (\<lambda>en. Enemy_update en (map Platform_update (platforms g))) (snd pu)"
  define r where "r = collectibles_forEach (fst pu) (score g) (collectibles g)"
  have sc: "score (update_core g) = fst (award_forEach (fst (snd r)) ens2)"
    and en: "enemies (update_core g) = snd (award_forEach (fst (snd r)) ens2)"
    and co: "collectibles (update_core g) = snd (snd r)"
    by (simp_all add: update_core_def ens2_def r_def pu_def)
  from assms have pre: "map scoreGiven (enemies g) = map defeated (enemies g)"
    and pre_score: "score g = collected_points (collectibles g)
        + 50 * int (length (filter defeated (enemies g)))"
    by (simp_all add: score_inv_def)
  have given2: "map scoreGiven ens2 = map scoreGiven (enemies g)"
    by (simp add: ens2_def pu_def comp_def)
  have "list_all (\<lambda>e. scoreGiven e \<longrightarrow> defeated e) (snd pu)"
    unfolding pu_def by (intro Player_update_defeated updatePlayer_score_inv_half pre)
  then have imp2: "list_all (\<lambda>e. scoreGiven e \<longrightarrow> defeated e) ens2"
    by (simp add: ens2_def list_all_iff)
  then have "map (\<lambda>e. scoreGiven e \<or> defeated e) ens2 = map defeated ens2"
    by (auto simp: list_all_iff)
  then have flags: "map scoreGiven (enemies (update_core g)) = map defeated (enemies (update_core g))"
    by (simp add: en award_forEach_flags)
  have "int (length (filter defeated (enemies (update_core g))))
      = int (length (filter defeated ens2))"
    using count_by_map [of defeated "enemies (update_core g)" defeated ens2]
    by (simp add: en award_forEach_flags)
  also have "\<dots> = int (length (filter scoreGiven ens2))
      + int (length (filter (\<lambda>e. defeated e \<and> \<not> scoreGiven e) ens2))"
    by (rule newly_defeated_count [OF imp2])
  also have "int (length (filter scoreGiven ens2)) = int (length (filter defeated (enemies g)))"
    using count_by_map [of scoreGiven ens2 defeated "enemies g"] given2 pre by simp
  finally have cnt: "int (length (filter defeated (enemies (update_core g))))
      = int (length (filter defeated (enemies g)))
        + int (length (filter (\<lambda>e. defeated e \<and> \<not> scoreGiven e) ens2))" .
  have "fst (snd r) - collected_points (snd (snd r)) = score g - collected_points (collectibles g)"
    unfolding r_def by (rule collectibles_forEach_points)
  with pre_score cnt have "score (update_core g)
      = collected_points (collectibles (update_core g))
        + 50 * int (length (filter defeated (enemies (update_core g))))"
    by (simp add: sc co award_forEach_score)
  with flags show ?thesis by (simp add: score_inv_def)
qed

lemma score_inv_cong:
  "score h = score g \<Longrightarrow> enemies h = enemies g \<Longrightarrow> collectibles h = collectibles g \<Longrightarrow>
   score_inv h = score_inv g"
  by (simp add: score_inv_def)

lemma Game_update_score_inv:
  assumes "score_inv g"
  shows "score_inv (Game_update g)"
proof (cases "gameOver g \<or> gameWon g")
  case True
  with assms show ?thesis by (simp add: Game_update_terminal)
next
  case False
  then have "Game_update g = checkWin (checkGameOver (updateCamera (update_core g)))"
    by (simp add: Game_update_core)
  moreover have "score_inv (checkWin (checkGameOver (updateCamera (update_core g))))
      = score_inv (update_core g)"
    by (rule score_inv_cong) simp_all
  ultimately show ?thesis using update_core_score_inv [OF assms] by simp
qed

lemma collected_Collectible [simp]: "collected (Collectible x0 y0 t) = False"
  by (simp add: Collectible_def)

lemma sum_list_all_zero:
  "\<forall>x \<in> set xs. f x = (0::int) \<Longrightarrow> sum_list (map f xs) = 0"
  by (induction xs) simp_all

lemma collected_points_fresh: "collected_points createCollectibles = 0"
proof -
  have "\<forall>c \<in> set createCollectibles. points c = 0"
    by (auto simp: createCollectibles_def points_def)
  then show ?thesis
    unfolding collected_points_def by (rule sum_list_all_zero)
qed

lemma fresh_enemies_flags:
  "filter defeated createEnemies = []"
  "map scoreGiven createEnemies = map defeated createEnemies"
  by (simp_all add: createEnemies_def Enemy_def)

lemma initLevel_score_inv: "score g = 0 \<Longrightarrow> score_inv (initLevel g)"
  by (simp add: score_inv_def initLevel_def collected_points_fresh fresh_enemies_flags)

lemma gameLoop_score_inv: "score_inv g \<Longrightarrow> score_inv (gameLoop g)"
  by (simp add: gameLoop_def Game_update_score_inv)

lemma start_score_inv: "score_inv g \<Longrightarrow> score_inv (start g)"
proof -
  assume a: "score_inv g"
  have "score_inv (g\<lparr>isRunning := True\<rparr>) = score_inv g"
    by (rule score_inv_cong) simp_all
  with a show ?thesis by (simp add: start_def gameLoop_score_inv)
qed

lemma reset_score_inv: "score_inv (reset g)"
  by (simp add: reset_def Let_def Game_stop_def start_score_inv initLevel_score_inv)

lemma handleKeyDown_score_inv: "score_inv g \<Longrightarrow> score_inv (handleKeyDown g k)"
  by (simp add: handleKeyDown_def Let_def reset_score_inv)
    (simp add: score_inv_def)

lemma game_step_score_inv: "score_inv g \<Longrightarrow> score_inv (game_step g ev)"
  by (cases ev)
    (simp_all add: gameLoop_score_inv handleKeyDown_score_inv start_score_inv reset_score_inv,
     simp_all add: score_inv_def handleKeyUp_def Game_stop_def)

lemma game_run_score_inv: "score_inv g \<Longrightarrow> score_inv (game_run g evs)"
  unfolding game_run_def
  by (induction evs arbitrary: g) (simp_all add: game_step_score_inv)

lemma Game_score_inv: "score_inv Game"
  unfolding Game_def by (rule initLevel_score_inv) simp


lemma stays_defeated_refl [simp]: "stays_defeated ens ens"
  by (simp add: stays_defeated_def list_all2_refl)

lemma stays_defeated_trans:
  "stays_defeated a b \<Longrightarrow> stays_defeated b c \<Longrightarrow> stays_defeated a c"
  unfolding stays_defeated_def list_all2_conv_all_nth by auto

lemma stays_defeated_map:
  "(\<And>e. defeated e \<Longrightarrow> defeated (f e)) \<Longrightarrow> stays_defeated ens (map f ens)"
  by (simp add: stays_defeated_def list_all2_map2 list_all2_refl)

lemma stays_defeated_same:
  "map defeated ens' = map defeated ens \<Longrightarrow> stays_defeated ens ens'"
  unfolding stays_defeated_def list_all2_conv_all_nth
  by (metis length_map nth_map)

lemma enemies_forEach_stays_defeated:
  "stays_defeated ens (snd (enemies_forEach p ens))"
  unfolding stays_defeated_def
  by (induction ens arbitrary: p) (simp_all add: split_beta)

lemma Player_update_stays_defeated:
  "stays_defeated ens (snd (Player_update p pls ens))"
  by (simp add: Player_update_enemies checkEnemyCollisions_def enemies_forEach_stays_defeated)

lemma update_core_stays_defeated:
  "stays_defeated (enemies g) (enemies (update_core g))"
proof -
  define ens1 where "ens1 = snd (Player_update (player (handleInput g)) (platforms g) (enemies g))"
  define ens2 where "ens2 = map (\<lambda>en. Enemy_update en (map Platform_update (platforms g))) ens1"
  have "stays_defeated (enemies g) ens1"
    unfolding ens1_def by (rule Player_update_stays_defeated)
  moreover have "stays_defeated ens1 ens2"
    unfolding ens2_def by (rule stays_defeated_map) simp
  moreover have "stays_defeated ens2 (enemies (update_core g))"
    by (rule stays_defeated_same) (simp add: update_core_def ens2_def ens1_def award_forEach_flags)
  ultimately show ?thesis by (blast intro: stays_defeated_trans)
qed

lemma Game_update_stays_defeated:
  "stays_defeated (enemies g) (enemies (Game_update g))"
  by (cases "gameOver g \<or> gameWon g")
    (simp_all add: Game_update_terminal Game_update_core update_core_stays_defeated)

lemma handleKeyDown_no_reset:
  "\<not> is_reset (KeyDown k) \<Longrightarrow>
   enemies (handleKeyDown g k) = enemies g \<and> score (handleKeyDown g k) = score g
   \<and> collectibles (handleKeyDown g k) = collectibles g"
  by (simp add: handleKeyDown_def Let_def)

lemma start_stays_defeated: "stays_defeated (enemies g) (enemies (start g))"
  using Game_update_stays_defeated [of "g\<lparr>isRunning := True\<rparr>"]
  by (simp add: start_def gameLoop_def)

lemma game_step_stays_defeated:
  "\<not> is_reset ev \<Longrightarrow> stays_defeated (enemies g) (enemies (game_step g ev))"
  by (cases ev)
    (simp_all add: gameLoop_def start_stays_defeated handleKeyDown_no_reset handleKeyUp_def
      Game_stop_def Game_update_stays_defeated)

lemma game_run_stays_defeated:
  "\<not> list_ex is_reset evs \<Longrightarrow> stays_defeated (enemies g) (enemies (game_run g evs))"
  unfolding game_run_def
proof (induction evs arbitrary: g)
  case Nil
  then show ?case by simp
next
  case (Cons ev evs)
  then have "stays_defeated (enemies g) (enemies (game_step g ev))"
    and "stays_defeated (enemies (game_step g ev)) (enemies (foldl game_step (game_step g ev) evs))"
    by (simp_all add: game_step_stays_defeated)
  then show ?case by (auto intro: stays_defeated_trans)
qed

lemma award_forEach_mono: "sc \<le> fst (award_forEach sc ens)"
  by (simp add: award_forEach_score)

lemma update_core_mono:
  assumes "list_all (\<lambda>c. 0 \<le> cvalue c) (collectibles g)"
  shows "score g \<le> score (update_core g)"
proof -
  have "score g \<le> score (updateCollectibles (updateEnemies (updatePlatforms
      (updatePlayer (handleInput g)))))"
    using assms by (simp add: collectibles_forEach_mono)
  also have "\<dots> \<le> score (update_core g)"
    unfolding update_core_def by (simp add: award_forEach_mono)
  finally show ?thesis .
qed

lemma Game_update_mono:
  "list_all (\<lambda>c. 0 \<le> cvalue c) (collectibles g) \<Longrightarrow> score g \<le> score (Game_update g)"
  by (cases "gameOver g \<or> gameWon g")
    (simp_all add: Game_update_terminal Game_update_core update_core_mono)

lemma Game_update_cvalue:
  "map cvalue (collectibles (Game_update g)) = map cvalue (collectibles g)"
  by (cases "gameOver g \<or> gameWon g")
    (simp_all add: Game_update_terminal Game_update_core update_core_def)

lemma list_all_by_map:
  "map f xs = map f ys \<Longrightarrow> list_all (\<lambda>x. P (f x)) xs = list_all (\<lambda>x. P (f x)) ys"
proof -
  assume "map f xs = map f ys"
  then have "list_all P (map f xs) = list_all P (map f ys)" by simp
  then show ?thesis by (simp add: list_all_iff)
qed

lemma Game_update_values:
  "list_all (\<lambda>c. 0 \<le> cvalue c) (collectibles (Game_update g))
     = list_all (\<lambda>c. 0 \<le> cvalue c) (collectibles g)"
  by (rule list_all_by_map) (rule Game_update_cvalue)

lemma fresh_values: "list_all (\<lambda>c. 0 \<le> cvalue c) createCollectibles"
  by (simp add: createCollectibles_def Collectible_def list_all_iff)

lemma start_values:
  "list_all (\<lambda>c. 0 \<le> cvalue c) (collectibles (start g))
     = list_all (\<lambda>c. 0 \<le> cvalue c) (collectibles g)"
  using Game_update_values [of "g\<lparr>isRunning := True\<rparr>"]
  by (simp add: start_def gameLoop_def)

lemma reset_values: "list_all (\<lambda>c. 0 \<le> cvalue c) (collectibles (reset g))"
  by (simp add: reset_def Let_def start_values initLevel_def fresh_values)

lemma game_step_values:
  "list_all (\<lambda>c. 0 \<le> cvalue c) (collectibles g) \<Longrightarrow>
   list_all (\<lambda>c. 0 \<le> cvalue c) (collectibles (game_step g ev))"
  by (cases ev)
    (simp_all add: gameLoop_def Game_update_values start_values reset_values
      handleKeyDown_def Let_def handleKeyUp_def Game_stop_def)

lemma game_run_values:
  "list_all (\<lambda>c. 0 \<le> cvalue c) (collectibles g) \<Longrightarrow>
   list_all (\<lambda>c. 0 \<le> cvalue c) (collectibles (game_run g evs))"
  unfolding game_run_def
  by (induction evs arbitrary: g) (simp_all add: game_step_values)

lemma Game_values: "list_all (\<lambda>c. 0 \<le> cvalue c) (collectibles Game)"
  by (simp add: Game_def initLevel_def fresh_values)

lemma start_mono:
  "list_all (\<lambda>c. 0 \<le> cvalue c) (collectibles g) \<Longrightarrow> score g \<le> score (start g)"
  using Game_update_mono [of "g\<lparr>isRunning := True\<rparr>"]
  by (simp add: start_def gameLoop_def)

lemma game_step_mono:
  "list_all (\<lambda>c. 0 \<le> cvalue c) (collectibles g) \<Longrightarrow> \<not> is_reset ev \<Longrightarrow>
   score g \<le> score (game_step g ev)"
  by (cases ev)
    (simp_all add: gameLoop_def Game_update_mono start_mono handleKeyDown_no_reset
      handleKeyUp_def Game_stop_def)

lemma game_run_mono:
  "list_all (\<lambda>c. 0 \<le> cvalue c) (collectibles g) \<Longrightarrow> \<not> list_ex is_reset evs \<Longrightarrow>
   score g \<le> score (game_run g evs)"
  unfolding game_run_def
proof (induction evs arbitrary: g)
  case Nil
  then show ?case by simp
next
  case (Cons ev evs)
  from Cons.prems have "score g \<le> score (game_step g ev)"
    by (simp add: game_step_mono)
  also from Cons have "\<dots> \<le> score (foldl game_step (game_step g ev) evs)"
    by (simp add: game_step_values)
  finally show ?case by simp
qed

lemma game_run_append: "game_run g (evs1 @ evs2) = game_run (game_run g evs1) evs2"
  by (simp add: game_run_def)

lemma stomp_game_update:
  "score (Game_update stomp_game) = 60"
  "map defeated (enemies (Game_update stomp_game)) = [True]"
  "score (Game_update (Game_update stomp_game)) = 60"
  by code_simp+

text \<open>
  Claim C6. In every state that a sequence of events leads to from the constructed game
  (and from any state where this holds), the score is the points of the collected
  collectibles plus 50 for each defeated enemy, and an enemy carries \<open>scoreGiven\<close>
  exactly when it is defeated: the bonus of an enemy is in the score once if it was
  defeated and not at all otherwise, however many frames have passed. Between two
  resets an enemy that is defeated stays defeated. One pass of the award loop adds 50
  for each enemy that is defeated and not yet marked and marks it, and a second pass
  over its result changes nothing.
\<close>

theorem defeat_bonus_once:
  "score_inv (game_run Game evs)
   \<and> (score_inv g \<longrightarrow> score_inv (game_run g evs))
   \<and> (\<not> list_ex is_reset evs \<longrightarrow> stays_defeated (enemies g) (enemies (game_run g evs)))
   \<and> fst (award_forEach sc ens)
       = sc + 50 * int (length (filter (\<lambda>e. defeated e \<and> \<not> scoreGiven e) ens))
   \<and> map scoreGiven (snd (award_forEach sc ens)) = map (\<lambda>e. scoreGiven e \<or> defeated e) ens
   \<and> award_forEach (fst (award_forEach sc ens)) (snd (award_forEach sc ens))
       = award_forEach sc ens"
proof -
  have "score_inv (game_run Game evs)"
    by (rule game_run_score_inv) (rule Game_score_inv)
  moreover have "score_inv g \<longrightarrow> score_inv (game_run g evs)"
    by (simp add: game_run_score_inv)
  moreover have "\<not> list_ex is_reset evs \<longrightarrow>
      stays_defeated (enemies g) (enemies (game_run g evs))"
    by (simp add: game_run_stays_defeated)
  ultimately show ?thesis
    using award_forEach_score [of sc ens] award_forEach_flags(1) [of sc ens]
      award_forEach_again [of sc ens]
    by blast
qed

theorem defeat_bonus_once_witness:
  "score_inv stomp_game
   \<and> score_inv (game_run stomp_game [AnimationFrame, AnimationFrame])
   \<and> score (game_run stomp_game [AnimationFrame]) = 60
   \<and> score (game_run stomp_game [AnimationFrame, AnimationFrame]) = 60
   \<and> map defeated (enemies (game_run stomp_game [AnimationFrame])) = [True]
   \<and> stays_defeated (enemies stomp_game)
        (enemies (game_run stomp_game [AnimationFrame, AnimationFrame]))"
proof -
  have inv: "score_inv stomp_game"
    by (simp add: score_inv_def stomp_game_def Game_def initLevel_def collected_points_def
        points_def Enemy_def)
  have run: "isRunning stomp_game" "isRunning (Game_update stomp_game)"
    by (simp_all add: Game_update_isRunning) (simp_all add: stomp_game_def)
  have frames: "game_run stomp_game [AnimationFrame] = Game_update stomp_game"
    "game_run stomp_game [AnimationFrame, AnimationFrame] = Game_update (Game_update stomp_game)"
    using run by (simp_all add: game_run_def gameLoop_def)
  show ?thesis
    using inv defeat_bonus_once [of "[AnimationFrame, AnimationFrame]" stomp_game 0 "[]"]
    by (simp add: frames stomp_game_update)
qed

text \<open>
  Claim C10. One round of the loop over the collectibles leaves the score or adds the
  value of the collectible, and the constructor gives a coin 10, a star 50, a heart 0
  and the double-jump charm 100; one round of the award loop leaves the score or adds
  50. So with collectibles of values that are not negative, which is what every state
  has that a sequence of events leads to from the constructed game, \<open>Game_update\<close>
  never lowers the score, and neither does any sequence of events without a reset.
\<close>

theorem score_never_decreases:
  "(list_all (\<lambda>c. 0 \<le> cvalue c) (collectibles g) \<longrightarrow> score g \<le> score (Game_update g))
   \<and> (list_all (\<lambda>c. 0 \<le> cvalue c) (collectibles g) \<and> \<not> list_ex is_reset evs \<longrightarrow>
        score g \<le> score (game_run g evs))
   \<and> list_all (\<lambda>c. 0 \<le> cvalue c) (collectibles (game_run Game evs1))
   \<and> (\<not> list_ex is_reset evs \<longrightarrow>
        score (game_run Game evs1) \<le> score (game_run Game (evs1 @ evs)))
   \<and> (fst (snd (collectible_step pl sc c)) = sc
        \<or> fst (snd (collectible_step pl sc c)) = sc + cvalue c)
   \<and> (fst (award_step sc en) = sc \<or> fst (award_step sc en) = sc + 50)
   \<and> cvalue (Collectible x0 y0 Coin) = 10 \<and> cvalue (Collectible x0 y0 Star) = 50
   \<and> cvalue (Collectible x0 y0 Heart) = 0 \<and> cvalue (Collectible x0 y0 DoubleJump) = 100"
proof -
  have reach: "list_all (\<lambda>c. 0 \<le> cvalue c) (collectibles (game_run Game evs1))"
    by (rule game_run_values) (rule Game_values)
  have "\<not> list_ex is_reset evs \<longrightarrow>
      score (game_run Game evs1) \<le> score (game_run Game (evs1 @ evs))"
    using game_run_mono [OF reach, of evs] by (simp add: game_run_append)
  moreover have "fst (snd (collectible_step pl sc c)) = sc
      \<or> fst (snd (collectible_step pl sc c)) = sc + cvalue c"
    by (simp add: collectible_step_def collect_def Collectible_update_def Let_def)
  moreover have "fst (award_step sc en) = sc \<or> fst (award_step sc en) = sc + 50"
    by (simp add: award_step_def)
  ultimately show ?thesis
    using reach Game_update_mono [of g] game_run_mono [of g evs]
    by (simp add: Collectible_def)
qed

theorem score_never_decreases_witness:
  "list_all (\<lambda>c. 0 \<le> cvalue c) (collectibles stomp_game)
   \<and> score stomp_game = 0
   \<and> score (Game_update stomp_game) = 60
   \<and> score stomp_game \<le> score (Game_update stomp_game)
   \<and> score stomp_game \<le> score (game_run stomp_game [KeyDown ''ArrowUp'', KeyUp ''ArrowUp''])
   \<and> score (game_run Game [StartButton])
        \<le> score (game_run Game [StartButton, KeyDown ''ArrowUp'', KeyUp ''ArrowUp''])"
proof -
  have vals: "list_all (\<lambda>c. 0 \<le> cvalue c) (collectibles stomp_game)"
    by (simp add: stomp_game_def Collectible_def)
  have none: "\<not> list_ex is_reset [KeyDown ''ArrowUp'', KeyUp ''ArrowUp'']"
    by simp
  have zero: "score stomp_game = 0"
    by (simp add: stomp_game_def Game_def initLevel_def)
  from vals none
    score_never_decreases [of stomp_game "[KeyDown ''ArrowUp'', KeyUp ''ArrowUp'']"
        "[StartButton]" "Player 0 0" 0 "Collectible 0 0 Coin" "Enemy 0 0 0 0" 0 0]
  have "score stomp_game \<le> score (Game_update stomp_game)"
    "score stomp_game \<le> score (game_run stomp_game [KeyDown ''ArrowUp'', KeyUp ''ArrowUp''])"
    "score (game_run Game [StartButton])
      \<le> score (game_run Game ([StartButton] @ [KeyDown ''ArrowUp'', KeyUp ''ArrowUp'']))"
    by blast+
  with vals zero show ?thesis
    by (simp add: stomp_game_update)
qed

section \<open>Patrol bounds of platforms and enemies\<close>

lemma Platform_update_bounds:
  "moving pl \<and> 0 \<le> moveRange pl \<longrightarrow>
      startX pl \<le> xpos (Platform_update pl)
      \<and> xpos (Platform_update pl) \<le> startX pl + moveRange pl
      \<and> (startX pl + moveRange pl < xpos pl + moveSpeed pl * direction_P pl \<longrightarrow>
           xpos (Platform_update pl) = startX pl + moveRange pl
           \<and> direction_P (Platform_update pl) = - 1)
      \<and> (xpos pl + moveSpeed pl * direction_P pl < startX pl \<longrightarrow>
           xpos (Platform_update pl) = startX pl \<and> direction_P (Platform_update pl) = 1)"
  by (auto simp: Platform_update_def Let_def)

lemma Platform_update_reverses:
  "moving pl \<and> 0 < moveSpeed pl \<and> (direction_P pl = 1 \<or> direction_P pl = - 1)
        \<and> startX pl \<le> xpos pl \<and> xpos pl \<le> startX pl + moveRange pl
        \<and> (startX pl + moveRange pl < xpos pl + moveSpeed pl * direction_P pl
             \<or> xpos pl + moveSpeed pl * direction_P pl < startX pl) \<longrightarrow>
      direction_P (Platform_update pl) = - direction_P pl"
  by (auto simp: Platform_update_def Let_def)

lemma Enemy_update_bounds:
  "\<not> defeated en \<and> patrolStart en + width en \<le> patrolEnd en \<longrightarrow>
      patrolStart en \<le> xpos (Enemy_update en pls)
      \<and> xpos (Enemy_update en pls) \<le> patrolEnd en - width en
      \<and> (xpos en + velocityX_E en * direction_E en < patrolStart en \<longrightarrow>
           xpos (Enemy_update en pls) = patrolStart en
           \<and> direction_E (Enemy_update en pls) = 1)
      \<and> (patrolEnd en - width en < xpos en + velocityX_E en * direction_E en \<longrightarrow>
           xpos (Enemy_update en pls) = patrolEnd en - width en
           \<and> direction_E (Enemy_update en pls) = - 1)"
  by (auto simp: Enemy_update_def Let_def)

lemma Enemy_update_reverses:
  "\<not> defeated en \<and> 0 < velocityX_E en \<and> (direction_E en = 1 \<or> direction_E en = - 1)
        \<and> patrolStart en \<le> xpos en \<and> xpos en \<le> patrolEnd en - width en
        \<and> (xpos en + velocityX_E en * direction_E en < patrolStart en
             \<or> patrolEnd en - width en < xpos en + velocityX_E en * direction_E en) \<longrightarrow>
      direction_E (Enemy_update en pls) = - direction_E en"
  by (auto simp: Enemy_update_def Let_def)

lemma Enemy_checkPlatformCollisions_velocityX [simp]:
  "velocityX_E (Enemy_checkPlatformCollisions en pls) = velocityX_E en"
  by (induction pls arbitrary: en) (simp_all add: Enemy_platform_step_def)

lemma Platform_update_ok: "platform_ok pl \<Longrightarrow> platform_ok (Platform_update pl)"
  by (auto simp: platform_ok_def Platform_update_def Let_def)

lemma Enemy_update_ok: "enemy_ok en \<Longrightarrow> enemy_ok (Enemy_update en pls)"
  by (auto simp: enemy_ok_def Enemy_update_def Let_def)

lemma enemy_ok_cong:
  "xpos e' = xpos e \<Longrightarrow> width e' = width e \<Longrightarrow> patrolStart e' = patrolStart e \<Longrightarrow>
   patrolEnd e' = patrolEnd e \<Longrightarrow> velocityX_E e' = velocityX_E e \<Longrightarrow>
   direction_E e' = direction_E e \<Longrightarrow> enemy_ok e' = enemy_ok e"
  by (simp add: enemy_ok_def)

lemma Player_enemy_step_ok [simp]:
  "enemy_ok (snd (Player_enemy_step p en)) = enemy_ok en"
  by (rule enemy_ok_cong) (simp_all add: Player_enemy_step_def defeat_def)

lemma enemies_forEach_ok [simp]:
  "list_all enemy_ok (snd (enemies_forEach p ens)) = list_all enemy_ok ens"
  by (induction ens arbitrary: p) (simp_all add: split_beta)

lemma Player_update_ok [simp]:
  "list_all enemy_ok (snd (Player_update p pls ens)) = list_all enemy_ok ens"
  by (simp add: Player_update_enemies checkEnemyCollisions_def)

lemma award_step_ok [simp]: "enemy_ok (snd (award_step sc en)) = enemy_ok en"
  by (rule enemy_ok_cong) (simp_all add: award_step_def)

lemma award_forEach_ok [simp]:
  "list_all enemy_ok (snd (award_forEach sc ens)) = list_all enemy_ok ens"
  by (induction ens arbitrary: sc) (simp_all add: split_beta)

lemma map_Platform_update_ok:
  "list_all platform_ok pls \<Longrightarrow> list_all platform_ok (map Platform_update pls)"
  by (induction pls) (simp_all add: Platform_update_ok)

lemma map_Enemy_update_ok:
  "list_all enemy_ok ens \<Longrightarrow> list_all enemy_ok (map (\<lambda>en. Enemy_update en pls) ens)"
  by (induction ens) (simp_all add: Enemy_update_ok)

lemma update_core_ok: "level_ok g \<Longrightarrow> level_ok (update_core g)"
  by (simp add: level_ok_def update_core_def map_Platform_update_ok map_Enemy_update_ok)

lemma level_ok_cong:
  "platforms h = platforms g \<Longrightarrow> enemies h = enemies g \<Longrightarrow> level_ok h = level_ok g"
  by (simp add: level_ok_def)

lemma Game_update_ok: "level_ok g \<Longrightarrow> level_ok (Game_update g)"
proof (cases "gameOver g \<or> gameWon g")
  case True
  then show "level_ok g \<Longrightarrow> level_ok (Game_update g)"
    by (simp add: Game_update_terminal)
next
  case False
  assume ok: "level_ok g"
  have "level_ok (checkWin (checkGameOver (updateCamera (update_core g))))
      = level_ok (update_core g)"
    by (rule level_ok_cong) simp_all
  with False ok show "level_ok (Game_update g)"
    by (simp add: Game_update_core update_core_ok)
qed

lemma fresh_level_ok:
  "list_all platform_ok createPlatforms" "list_all enemy_ok createEnemies"
  by (simp_all add: createPlatforms_def createEnemies_def Platform_def Platform_moving_def
      Enemy_def platform_ok_def enemy_ok_def)

lemma initLevel_ok: "level_ok (initLevel g)"
  by (simp add: level_ok_def initLevel_def fresh_level_ok)

lemma start_ok: "level_ok g \<Longrightarrow> level_ok (start g)"
proof -
  assume ok: "level_ok g"
  have "level_ok (g\<lparr>isRunning := True\<rparr>) = level_ok g"
    by (rule level_ok_cong) simp_all
  with ok show ?thesis
    by (simp add: start_def gameLoop_def Game_update_ok)
qed

lemma reset_ok: "level_ok (reset g)"
  by (simp add: reset_def Let_def start_ok initLevel_ok)

lemma game_step_ok: "level_ok g \<Longrightarrow> level_ok (game_step g ev)"
  by (cases ev)
    (simp_all add: gameLoop_def Game_update_ok start_ok reset_ok handleKeyDown_def Let_def,
     simp_all add: level_ok_def handleKeyUp_def Game_stop_def)

lemma game_run_ok: "level_ok g \<Longrightarrow> level_ok (game_run g evs)"
  unfolding game_run_def
  by (induction evs arbitrary: g) (simp_all add: game_step_ok)

lemma Game_ok: "level_ok Game"
  unfolding Game_def by (rule initLevel_ok)

text \<open>
  Claim C5. A moving platform whose range is not negative is, after \<open>Platform_update\<close>,
  at an \<open>x\<close> in \<open>[startX, startX + moveRange]\<close>; a step that would pass a bound puts it
  exactly on the bound, with the direction \<open>- 1\<close> at the upper and \<open>1\<close> at the lower
  bound, which for a well-formed platform is the opposite of the direction it had. An
  enemy that is not defeated, with a patrol interval at least as wide as the enemy, is
  after \<open>Enemy_update\<close> at an \<open>x\<close> in \<open>[patrolStart, patrolEnd - width]\<close>, with the same
  clamping and reversal. In every state that a sequence of events leads to from the
  constructed game, all platforms and enemies are well formed, hence inside their bounds.
\<close>

theorem patrol_within_bounds:
  "(moving pl \<and> 0 \<le> moveRange pl \<longrightarrow>
      startX pl \<le> xpos (Platform_update pl)
      \<and> xpos (Platform_update pl) \<le> startX pl + moveRange pl
      \<and> (startX pl + moveRange pl < xpos pl + moveSpeed pl * direction_P pl \<longrightarrow>
           xpos (Platform_update pl) = startX pl + moveRange pl
           \<and> direction_P (Platform_update pl) = - 1)
      \<and> (xpos pl + moveSpeed pl * direction_P pl < startX pl \<longrightarrow>
           xpos (Platform_update pl) = startX pl \<and> direction_P (Platform_update pl) = 1))
   \<and> (moving pl \<and> platform_ok pl
        \<and> (startX pl + moveRange pl < xpos pl + moveSpeed pl * direction_P pl
             \<or> xpos pl + moveSpeed pl * direction_P pl < startX pl) \<longrightarrow>
      direction_P (Platform_update pl) = - direction_P pl)
   \<and> (\<not> defeated en \<and> patrolStart en + width en \<le> patrolEnd en \<longrightarrow>
      patrolStart en \<le> xpos (Enemy_update en pls)
      \<and> xpos (Enemy_update en pls) \<le> patrolEnd en - width en
      \<and> (xpos en + velocityX_E en * direction_E en < patrolStart en \<longrightarrow>
           xpos (Enemy_update en pls) = patrolStart en
           \<and> direction_E (Enemy_update en pls) = 1)
      \<and> (patrolEnd en - width en < xpos en + velocityX_E en * direction_E en \<longrightarrow>
           xpos (Enemy_update en pls) = patrolEnd en - width en
           \<and> direction_E (Enemy_update en pls) = - 1))
   \<and> (\<not> defeated en \<and> enemy_ok en
        \<and> (xpos en + velocityX_E en * direction_E en < patrolStart en
             \<or> patrolEnd en - width en < xpos en + velocityX_E en * direction_E en) \<longrightarrow>
      direction_E (Enemy_update en pls) = - direction_E en)
   \<and> level_ok (game_run Game evs)"
proof -
  have "moving pl \<and> platform_ok pl
        \<and> (startX pl + moveRange pl < xpos pl + moveSpeed pl * direction_P pl
             \<or> xpos pl + moveSpeed pl * direction_P pl < startX pl) \<longrightarrow>
      direction_P (Platform_update pl) = - direction_P pl"
    using Platform_update_reverses [of pl] by (simp add: platform_ok_def)
  moreover have "\<not> defeated en \<and> enemy_ok en
        \<and> (xpos en + velocityX_E en * direction_E en < patrolStart en
             \<or> patrolEnd en - width en < xpos en + velocityX_E en * direction_E en) \<longrightarrow>
      direction_E (Enemy_update en pls) = - direction_E en"
    using Enemy_update_reverses [of en pls] by (simp add: enemy_ok_def)
  moreover have "level_ok (game_run Game evs)"
    by (rule game_run_ok) (rule Game_ok)
  ultimately show ?thesis
    using Platform_update_bounds [of pl] Enemy_update_bounds [of en pls]
    by (intro conjI)
qed

theorem patrol_within_bounds_witness:
  "xpos (Platform_update ((Platform_moving 400 350 100 15 True 100 2)\<lparr>xpos := 499\<rparr>)) = 500
   \<and> direction_P (Platform_update ((Platform_moving 400 350 100 15 True 100 2)\<lparr>xpos := 499\<rparr>)) = - 1
   \<and> xpos (Platform_update
        ((Platform_moving 400 350 100 15 True 100 2)\<lparr>xpos := 401, direction_P := - 1\<rparr>)) = 400
   \<and> direction_P (Platform_update
        ((Platform_moving 400 350 100 15 True 100 2)\<lparr>xpos := 401, direction_P := - 1\<rparr>)) = 1
   \<and> xpos (Enemy_update ((Enemy 200 510 0 380)\<lparr>xpos := 344\<rparr>) []) = 345
   \<and> direction_E (Enemy_update ((Enemy 200 510 0 380)\<lparr>xpos := 344\<rparr>) []) = - 1
   \<and> xpos (Enemy_update ((Enemy 200 510 0 380)\<lparr>xpos := 1, direction_E := - 1\<rparr>) []) = 0
   \<and> direction_E (Enemy_update ((Enemy 200 510 0 380)\<lparr>xpos := 1, direction_E := - 1\<rparr>) []) = 1
   \<and> platform_ok ((Platform_moving 400 350 100 15 True 100 2)\<lparr>xpos := 499\<rparr>)
   \<and> enemy_ok ((Enemy 200 510 0 380)\<lparr>xpos := 344\<rparr>)
   \<and> level_ok (game_run Game [StartButton])"
proof -
  let ?pl1 = "(Platform_moving 400 350 100 15 True 100 2)\<lparr>xpos := 499\<rparr>"
  let ?pl2 = "(Platform_moving 400 350 100 15 True 100 2)\<lparr>xpos := 401, direction_P := - 1\<rparr>"
  let ?en1 = "(Enemy 200 510 0 380)\<lparr>xpos := 344\<rparr>"
  let ?en2 = "(Enemy 200 510 0 380)\<lparr>xpos := 1, direction_E := - 1\<rparr>"
  have ok: "platform_ok ?pl1" "platform_ok ?pl2" "enemy_ok ?en1" "enemy_ok ?en2"
    by (simp_all add: platform_ok_def enemy_ok_def Platform_moving_def Enemy_def)
  have over: "startX ?pl1 + moveRange ?pl1 < xpos ?pl1 + moveSpeed ?pl1 * direction_P ?pl1"
    "xpos ?pl2 + moveSpeed ?pl2 * direction_P ?pl2 < startX ?pl2"
    "patrolEnd ?en1 - width ?en1 < xpos ?en1 + velocityX_E ?en1 * direction_E ?en1"
    "xpos ?en2 + velocityX_E ?en2 * direction_E ?en2 < patrolStart ?en2"
    by (simp_all add: Platform_moving_def Enemy_def)
  have conf: "moving ?pl1" "0 \<le> moveRange ?pl1" "moving ?pl2" "0 \<le> moveRange ?pl2"
    "\<not> defeated ?en1" "patrolStart ?en1 + width ?en1 \<le> patrolEnd ?en1"
    "\<not> defeated ?en2" "patrolStart ?en2 + width ?en2 \<le> patrolEnd ?en2"
    by (simp_all add: Platform_moving_def Enemy_def)
  have dir: "direction_P ?pl1 = 1" "direction_P ?pl2 = - 1" "direction_E ?en1 = 1"
    "direction_E ?en2 = - 1"
    "startX ?pl1 + moveRange ?pl1 = 500" "startX ?pl2 = 400"
    "patrolEnd ?en1 - width ?en1 = 345" "patrolStart ?en2 = 0"
    by (simp_all add: Platform_moving_def Enemy_def)
  from patrol_within_bounds [of ?pl1 ?en1 "[]" "[StartButton]"] ok(1,3) over(1,3) conf(1,2,5,6)
  have first: "xpos (Platform_update ?pl1) = startX ?pl1 + moveRange ?pl1"
    "direction_P (Platform_update ?pl1) = - direction_P ?pl1"
    "xpos (Enemy_update ?en1 []) = patrolEnd ?en1 - width ?en1"
    "direction_E (Enemy_update ?en1 []) = - direction_E ?en1"
    "level_ok (game_run Game [StartButton])"
    by blast+
  from patrol_within_bounds [of ?pl2 ?en2 "[]" "[]"] ok(2,4) over(2,4) conf(3,4,7,8)
  have second: "xpos (Platform_update ?pl2) = startX ?pl2"
    "direction_P (Platform_update ?pl2) = - direction_P ?pl2"
    "xpos (Enemy_update ?en2 []) = patrolStart ?en2"
    "direction_E (Enemy_update ?en2 []) = - direction_E ?en2"
    by blast+
  show ?thesis
    using first second ok(1,3) by (simp only: dir) simp
qed

section \<open>Reset\<close>

lemma no_platform_hit:
  "list_all (\<lambda>pl. \<not> collidesWith q pl) pls \<Longrightarrow> Player_checkPlatformCollisions q pls = q"
  by (induction pls) (simp_all add: Player_platform_step_def)

lemma no_enemy_hit:
  "list_all (\<lambda>en. \<not> collidesWith q en) ens \<Longrightarrow> enemies_forEach q ens = (q, ens)"
  by (induction ens) (simp_all add: Player_enemy_step_def)

lemma collidesWith_Collectible_update [simp]:
  "collidesWith q (Collectible_update c) = collidesWith q c"
  by (simp add: collidesWith_def Collectible_update_def)

lemma no_collectible_hit:
  "list_all (\<lambda>c. \<not> collidesWith q c) cs \<Longrightarrow>
   collectibles_forEach q sc cs = (q, sc, map Collectible_update cs)"
  by (induction cs) (simp_all add: collectible_step_def Let_def)

lemma no_award:
  "list_all (\<lambda>e. \<not> defeated e) ens \<Longrightarrow> award_forEach sc ens = (sc, ens)"
  by (induction ens) (simp_all add: award_step_def)

text \<open>A player one tick after its construction at the start of the level, moving
  sideways by at most its speed, touches nothing of the new level.\<close>

lemma fresh_no_platform:
  assumes "active q" and "94 \<le> xpos q" and "xpos q \<le> 106" and "ypos q = 503 / 5"
    and "width q = 40" and "height q = 40"
  shows "list_all (\<lambda>pl. \<not> collidesWith q pl) createPlatforms"
  using assms
  by (simp add: createPlatforms_def Platform_def Platform_moving_def collidesWith_def)

lemma fresh_no_enemy:
  assumes "active q" and "94 \<le> xpos q" and "xpos q \<le> 106" and "ypos q = 503 / 5"
    and "width q = 40" and "height q = 40"
  shows "list_all (\<lambda>en. \<not> collidesWith q en) createEnemies"
  using assms
  by (simp add: createEnemies_def Enemy_def collidesWith_def)

lemma coin_row_low: "200 \<le> 500 - (of_nat (i mod 3) :: rat) * 150"
proof -
  have "i mod 3 \<le> 2" by simp
  then have "(of_nat (i mod 3) :: rat) \<le> of_nat 2" by (simp only: of_nat_le_iff)
  then show ?thesis by simp
qed

lemma fresh_no_collectible:
  assumes "active q" and "94 \<le> xpos q" and "xpos q \<le> 106" and "ypos q = 503 / 5"
    and "width q = 40" and "height q = 40"
  shows "list_all (\<lambda>c. \<not> collidesWith q c) createCollectibles"
proof -
  have "\<not> collidesWith q (Collectible (200 + of_nat i * 70) (500 - of_nat (i mod 3) * 150) Coin)"
    for i :: nat
    using assms coin_row_low [of i] by (simp add: collidesWith_def Collectible_def)
  then show ?thesis
    using assms
    by (simp add: createCollectibles_def list_all_iff) (simp add: Collectible_def collidesWith_def)
qed


lemma fresh_Player_update:
  assumes "vx = - 6 \<or> vx = 0 \<or> vx = 6"
  shows "Player_update ((Player 100 100)\<lparr>velocityX := vx\<rparr>) createPlatforms createEnemies
    = ((Player 100 100)\<lparr>velocityX := vx, velocityY := 3 / 5, xpos := 100 + vx,
         ypos := 503 / 5\<rparr>, createEnemies)"
proof -
  define q where "q = (Player 100 100)\<lparr>velocityX := vx, velocityY := 3 / 5, xpos := 100 + vx,
         ypos := 503 / 5\<rparr>"
  have geo: "active q" "94 \<le> xpos q" "xpos q \<le> 106" "ypos q = 503 / 5"
    "width q = 40" "height q = 40"
    using assms by (auto simp: q_def Player_def)
  have start: "(Player 100 100)\<lparr>velocityX := vx\<rparr>
      \<lparr>velocityY := velocityY ((Player 100 100)\<lparr>velocityX := vx\<rparr>)
                     + gravity ((Player 100 100)\<lparr>velocityX := vx\<rparr>),
       xpos := xpos ((Player 100 100)\<lparr>velocityX := vx\<rparr>)
               + velocityX ((Player 100 100)\<lparr>velocityX := vx\<rparr>),
       ypos := ypos ((Player 100 100)\<lparr>velocityX := vx\<rparr>)
               + (velocityY ((Player 100 100)\<lparr>velocityX := vx\<rparr>)
                  + gravity ((Player 100 100)\<lparr>velocityX := vx\<rparr>)),
       isOnGround := False\<rparr> = q"
    by (simp add: q_def Player_def)
  have pl: "Player_checkPlatformCollisions q createPlatforms = q"
    by (rule no_platform_hit) (rule fresh_no_platform [OF geo])
  have en: "checkEnemyCollisions q createEnemies = (q, createEnemies)"
    using no_enemy_hit [OF fresh_no_enemy [OF geo]]
    by (simp add: checkEnemyCollisions_def)
  have q: "\<not> isOnGround q" "\<not> invincible q" "constrainToBounds q = q"
    using assms by (auto simp: q_def Player_def constrainToBounds_def)
  have "fst (Player_update ((Player 100 100)\<lparr>velocityX := vx\<rparr>) createPlatforms createEnemies) = q"
    unfolding Player_update_final start
    by (simp add: pl en q)
  moreover have "snd (Player_update ((Player 100 100)\<lparr>velocityX := vx\<rparr>) createPlatforms
      createEnemies) = createEnemies"
    unfolding Player_update_enemies start
    by (simp add: pl en q)
  ultimately show ?thesis
    unfolding q_def by (simp add: prod_eq_iff)
qed

lemma fresh_enemies_undefeated:
  "list_all (\<lambda>e. \<not> defeated e) (map (\<lambda>en. Enemy_update en pls) createEnemies)"
  by (simp add: list_all_iff createEnemies_def Enemy_def)

lemma reset_is_first_tick:
  "reset g = Game_update ((initLevel (g\<lparr>isRunning := False, score := 0, level := 1\<rparr>))
                            \<lparr>isRunning := True\<rparr>)"
  by (simp add: reset_def start_def gameLoop_def Game_stop_def Let_def initLevel_def)

text \<open>
  Claim C9. \<open>reset\<close> ends with \<open>start\<close>, which runs the first update of the new
  level at once. After \<open>reset\<close>, from every state: the score is 0, the high score is
  the one before, \<open>gameOver\<close> and \<open>gameWon\<close> are false, and the player, the
  platforms, the enemies and the collectibles are the newly constructed ones after that
  one update (in which the player touches nothing, so nothing is collected, defeated or
  scored). Nothing of the old player, collections, score or flags reaches the result.
\<close>

theorem reset_rebuilds_level:
  "score (reset g) = 0
   \<and> highScore (reset g) = highScore g
   \<and> \<not> gameOver (reset g) \<and> \<not> gameWon (reset g)
   \<and> player (reset g)
       = (Player 100 100)\<lparr>velocityX :=
              (if keys g ''ArrowLeft'' then - 6 else if keys g ''ArrowRight'' then 6 else 0),
            velocityY := 3 / 5,
            xpos := 100 + (if keys g ''ArrowLeft'' then - 6
                           else if keys g ''ArrowRight'' then 6 else 0),
            ypos := 503 / 5\<rparr>
   \<and> platforms (reset g) = map Platform_update createPlatforms
   \<and> enemies (reset g)
       = map (\<lambda>en. Enemy_update en (map Platform_update createPlatforms)) createEnemies
   \<and> collectibles (reset g) = map Collectible_update createCollectibles
   \<and> reset (g\<lparr>player := p, platforms := pls, enemies := ens, collectibles := cs,
             score := sc, gameOver := over, gameWon := won\<rparr>) = reset g"
proof -
  define vx :: rat
    where "vx = (if keys g ''ArrowLeft'' then - 6 else if keys g ''ArrowRight'' then 6 else 0)"
  define f where "f = (initLevel (g\<lparr>isRunning := False, score := 0, level := 1\<rparr>))
                            \<lparr>isRunning := True\<rparr>"
  define q where "q = (Player 100 100)\<lparr>velocityX := vx, velocityY := 3 / 5, xpos := 100 + vx,
         ypos := 503 / 5\<rparr>"
  have vx: "vx = - 6 \<or> vx = 0 \<or> vx = 6"
    by (simp add: vx_def)
  have f: "\<not> gameOver f" "\<not> gameWon f" "score f = 0" "highScore f = highScore g"
    "platforms f = createPlatforms" "enemies f = createEnemies"
    "collectibles f = createCollectibles" "keys f = keys g" "player f = Player 100 100"
    by (simp_all add: f_def initLevel_def)
  have inp: "player (handleInput f) = (Player 100 100)\<lparr>velocityX := vx\<rparr>"
    "gameOver (handleInput f) = False" "gameWon (handleInput f) = False"
    using f by (simp_all add: handleInput_def vx_def moveLeft_def moveRight_def Player_stop_def
        Player_def)
  have pu: "Player_update ((Player 100 100)\<lparr>velocityX := vx\<rparr>) createPlatforms createEnemies
      = (q, createEnemies)"
    unfolding q_def by (rule fresh_Player_update [OF vx])
  have geo: "active q" "94 \<le> xpos q" "xpos q \<le> 106" "ypos q = 503 / 5"
    "width q = 40" "height q = 40"
    using vx by (auto simp: q_def Player_def)
  have co: "collectibles_forEach q 0 createCollectibles
      = (q, 0, map Collectible_update createCollectibles)"
    by (rule no_collectible_hit) (rule fresh_no_collectible [OF geo])
  have aw: "award_forEach 0 (map (\<lambda>en. Enemy_update en (map Platform_update createPlatforms))
        createEnemies)
      = (0, map (\<lambda>en. Enemy_update en (map Platform_update createPlatforms)) createEnemies)"
    by (rule no_award) (rule fresh_enemies_undefeated)
  have core: "score (update_core f) = 0" "highScore (update_core f) = highScore g"
    "player (update_core f) = q"
    "platforms (update_core f) = map Platform_update createPlatforms"
    "enemies (update_core f)
      = map (\<lambda>en. Enemy_update en (map Platform_update createPlatforms)) createEnemies"
    "collectibles (update_core f) = map Collectible_update createCollectibles"
    "gameOver (update_core f) = False" "gameWon (update_core f) = False"
    by (simp_all add: update_core_def pu f co aw inp)
  have "active q" "\<not> 2250 < xpos q"
    using geo by simp_all
  then have fin: "checkWin (checkGameOver (updateCamera (update_core f)))
      = updateCamera (update_core f)"
    by (simp add: checkWin_def checkGameOver_def core)
  have "reset g = updateCamera (update_core f)"
    unfolding reset_is_first_tick f_def [symmetric]
    using f(1,2) fin by (simp add: Game_update_core)
  moreover have "reset (g\<lparr>player := p, platforms := pls, enemies := ens, collectibles := cs,
              score := sc, gameOver := over, gameWon := won\<rparr>) = reset g"
    by (simp add: reset_def Game_stop_def Let_def initLevel_def)
  ultimately show ?thesis
    using f(1,2) by (simp add: core q_def vx_def)
qed

theorem reset_rebuilds_level_witness:
  "score (reset (stomp_game\<lparr>score := 60, highScore := 60, gameOver := True\<rparr>)) = 0
   \<and> highScore (reset (stomp_game\<lparr>score := 60, highScore := 60, gameOver := True\<rparr>)) = 60
   \<and> \<not> gameOver (reset (stomp_game\<lparr>score := 60, highScore := 60, gameOver := True\<rparr>))
   \<and> xpos (player (reset (stomp_game\<lparr>score := 60, highScore := 60, gameOver := True\<rparr>))) = 100
   \<and> length (enemies (reset (stomp_game\<lparr>score := 60, highScore := 60, gameOver := True\<rparr>))) = 12"
  using reset_rebuilds_level [where g = "stomp_game\<lparr>score := 60, highScore := 60, gameOver := True\<rparr>"
      and p = "Player 0 0" and pls = "[]" and ens = "[]" and cs = "[]" and sc = 0
      and over = False and won = False]
  by (simp add: stomp_game_def Game_def initLevel_def Player_def createEnemies_def)

section \<open>The end of the game\<close>

text \<open>What an update from a running state leaves in the two flags.\<close>

lemma Game_update_flags:
  assumes "\<not> gameOver g" and "\<not> gameWon g"
  shows "gameOver (Game_update g) \<longleftrightarrow> \<not> active (player (Game_update g))"
    and "gameWon (Game_update g) \<longleftrightarrow> 2250 < xpos (player (Game_update g))"
  using assms
  by (simp_all add: Game_update_core) (simp_all add: checkWin_def checkGameOver_def Let_def)

lemma goal_line_tick:
  "(let g = Game_update goal_line_game
    in (active (player g), xpos (player g), health (player g)))
   = (False, 2254, 0)"
  by code_simp

text \<open>
  Claim C1 does not hold of the code. In \<open>Game_update\<close> the test for the win is a second
  \<^verbatim>\<open>if\<close>, not an \<^verbatim>\<open>else if\<close>: from the running state
  \<open>goal_line_game\<close>, with the player alive and touching no enemy, one update moves
  the player across \<open>x = 2250\<close> into the enemy, the last health point is lost, and both
  \<open>gameOver\<close> and \<open>gameWon\<close> are set while the player is inactive.
\<close>

theorem dead_player_wins:
  "\<not> gameOver goal_line_game \<and> \<not> gameWon goal_line_game
   \<and> active (player goal_line_game)
   \<and> list_all (\<lambda>en. \<not> collidesWith (player goal_line_game) en) (enemies goal_line_game)
   \<and> gameOver (Game_update goal_line_game)
   \<and> gameWon (Game_update goal_line_game)
   \<and> \<not> active (player (Game_update goal_line_game))
   \<and> xpos (player (Game_update goal_line_game)) = 2254"
proof -
  have running: "\<not> gameOver goal_line_game" "\<not> gameWon goal_line_game"
    "active (player goal_line_game)"
    by (simp_all add: goal_line_game_def Game_def initLevel_def Player_def)
  have clear: "list_all (\<lambda>en. \<not> collidesWith (player goal_line_game) en)
      (enemies goal_line_game)"
    by (simp add: goal_line_game_def Game_def initLevel_def Player_def createEnemies_def
        Enemy_def collidesWith_def)
  have after: "\<not> active (player (Game_update goal_line_game))"
    "xpos (player (Game_update goal_line_game)) = 2254"
    using goal_line_tick by (simp_all add: Let_def)
  show ?thesis
    using running clear after Game_update_flags [OF running(1,2)] by simp
qed

end
